theory Spec2Isabelle
  imports Main "HOL-Library.Word" "HOL-Library.Signed_Division"
begin

unbundle bit_operations_syntax

section \<open>The software rasterizer's pixel pipeline (GPU/Software/DrawPixel.cpp)\<close>

text \<open>
  A shallow embedding of \<^verbatim>\<open>src/GPU/Software/DrawPixel.cpp\<close>: the per-pixel pipeline
  \<^verbatim>\<open>DrawSinglePixel\<close> with its helpers, the routine cache \<^verbatim>\<open>PixelJitCache\<close> and the
  blend classification \<^verbatim>\<open>ComputePixelBlendState\<close>.

  The headers the file includes (\<^verbatim>\<open>GPU/ge_constants.h\<close>, \<^verbatim>\<open>GPU/Software/FuncId.h\<close>,
  \<^verbatim>\<open>GPU/Software/DrawPixel.h\<close>, \<^verbatim>\<open>GPU/Math3D.h\<close>, \<^verbatim>\<open>Common/CodeBlock.h\<close>,
  \<^verbatim>\<open>Common/Data/Convert/ColorConv.h\<close>) are not among the sources. What the file needs of
  them is declared below, next to its first use, and marked as such.
\<close>

type_synonym u8 = "8 word"
type_synonym u16 = "16 word"
type_synonym u32 = "32 word"

subsection \<open>Enumerations\<close>

text \<open>
  Modelled from the spec: the enumerations are declared in \<^verbatim>\<open>ge_constants.h\<close> and
  \<^verbatim>\<open>FuncId.h\<close>, which are not among the sources. Each has the enumerators that
  \<^verbatim>\<open>DrawPixel.cpp\<close> names. Where a \<^verbatim>\<open>switch\<close> or an \<^verbatim>\<open>if\<close> chain of the file has a last
  branch that no enumerator named in the file reaches (\<^verbatim>\<open>GEBufferFormat\<close>,
  \<^verbatim>\<open>PixelBlendFactor\<close>), one more constructor stands for every other value of the
  enumeration, so that the branch is part of the model.
\<close>

datatype GEBufferFormat =
    GE_FORMAT_565
  | GE_FORMAT_5551
  | GE_FORMAT_4444
  | GE_FORMAT_8888
  | GE_FORMAT_other

datatype GEComparison =
    GE_COMP_NEVER
  | GE_COMP_ALWAYS
  | GE_COMP_EQUAL
  | GE_COMP_NOTEQUAL
  | GE_COMP_LESS
  | GE_COMP_LEQUAL
  | GE_COMP_GREATER
  | GE_COMP_GEQUAL

datatype GEStencilOp =
    GE_STENCILOP_KEEP
  | GE_STENCILOP_ZERO
  | GE_STENCILOP_REPLACE
  | GE_STENCILOP_INVERT
  | GE_STENCILOP_INCR
  | GE_STENCILOP_DECR

datatype GELogicOp =
    GE_LOGIC_CLEAR
  | GE_LOGIC_AND
  | GE_LOGIC_AND_REVERSE
  | GE_LOGIC_COPY
  | GE_LOGIC_AND_INVERTED
  | GE_LOGIC_NOOP
  | GE_LOGIC_XOR
  | GE_LOGIC_OR
  | GE_LOGIC_NOR
  | GE_LOGIC_EQUIV
  | GE_LOGIC_INVERTED
  | GE_LOGIC_OR_REVERSE
  | GE_LOGIC_COPY_INVERTED
  | GE_LOGIC_OR_INVERTED
  | GE_LOGIC_NAND
  | GE_LOGIC_SET

datatype GEBlendMode =
    GE_BLENDMODE_MUL_AND_ADD
  | GE_BLENDMODE_MUL_AND_SUBTRACT
  | GE_BLENDMODE_MUL_AND_SUBTRACT_REVERSE
  | GE_BLENDMODE_MIN
  | GE_BLENDMODE_MAX
  | GE_BLENDMODE_ABSDIFF

datatype PixelBlendFactor =
    OTHERCOLOR
  | INVOTHERCOLOR
  | SRCALPHA
  | INVSRCALPHA
  | DSTALPHA
  | INVDSTALPHA
  | DOUBLESRCALPHA
  | DOUBLEINVSRCALPHA
  | DOUBLEDSTALPHA
  | DOUBLEINVDSTALPHA
  | PixelBlendFactor_other

subsection \<open>The configuration key\<close>

text \<open>
  Modelled from the spec: \<^verbatim>\<open>PixelFuncID\<close>, the spec's configuration key, is declared in
  \<^verbatim>\<open>FuncId.h\<close>, which is not among the sources. The record has the members that
  \<^verbatim>\<open>DrawPixel.cpp\<close> reads, under the names it reads them by; the accessors it calls
  (\<^verbatim>\<open>AlphaTestFunc()\<close>, \<^verbatim>\<open>SFail()\<close>, \<^verbatim>\<open>ColorClear()\<close>, ...) are fields too, each free to
  take any value. The cached block is the member \<^verbatim>\<open>cached\<close>.
  Strides and the depth range are C \<^verbatim>\<open>int\<close>s where the file uses them and are
  integers here; the dither matrix is the array of 16 offsets, a function of the index
  (the file reads it at \<^verbatim>\<open>(y & 3) * 4 + (x & 3)\<close>, which is below 16).
\<close>

record PixelFuncID_cached =
  colorWriteMask :: u32
  ditherMatrix :: "nat \<Rightarrow> int"
  fogColor :: u32
  minz :: int
  maxz :: int
  framebufStride :: int
  depthbufStride :: int
  logicOp :: GELogicOp
  stencilRef :: u8
  stencilTestMask :: u8
  alphaTestMask :: u8
  colorTestFunc :: GEComparison
  colorTestMask :: u32
  colorTestRef :: u32

record PixelFuncID =
  cached :: PixelFuncID_cached
  clearMode :: bool
  colorTest :: bool
  stencilTest :: bool
  depthWrite :: bool
  applyDepthRange :: bool
  AlphaTestFunc :: GEComparison
  DepthTestFunc :: GEComparison
  StencilTestFunc :: GEComparison
  fbFormat :: GEBufferFormat
  alphaTestRef :: u8
  stencilTestRef :: u8
  alphaBlend :: bool
  AlphaBlendEq :: GEBlendMode
  AlphaBlendSrc :: PixelBlendFactor
  AlphaBlendDst :: PixelBlendFactor
  hasAlphaTestMask :: bool
  hasStencilTestMask :: bool
  dithering :: bool
  applyLogicOp :: bool
  applyFog :: bool
  applyColorWriteMask :: bool
  SFail :: GEStencilOp
  ZFail :: GEStencilOp
  ZPass :: GEStencilOp
  ColorClear :: bool
  StencilClear :: bool
  DepthClear :: bool

subsection \<open>Stencil operations\<close>

text \<open>
  \<^verbatim>\<open>ApplyStencilOp\<close> (lines 243-293). The result type \<^verbatim>\<open>u8\<close> truncates the \<^verbatim>\<open>int\<close>
  that C++ computes, which is what the operations on \<^typ>\<open>8 word\<close> do. In the
  \<^verbatim>\<open>GE_STENCILOP_DECR\<close> switch the 4444 case leaves by \<^verbatim>\<open>break\<close> when the stencil is below
  \<^verbatim>\<open>0x10\<close> and reaches the final \<^verbatim>\<open>return old_stencil\<close>.
\<close>

fun ApplyStencilOp :: "GEBufferFormat \<Rightarrow> u8 \<Rightarrow> GEStencilOp \<Rightarrow> u8 \<Rightarrow> u8" where
  "ApplyStencilOp fmt stencilReplace GE_STENCILOP_KEEP old_stencil = old_stencil"
| "ApplyStencilOp fmt stencilReplace GE_STENCILOP_ZERO old_stencil = 0"
| "ApplyStencilOp fmt stencilReplace GE_STENCILOP_REPLACE old_stencil = stencilReplace"
| "ApplyStencilOp fmt stencilReplace GE_STENCILOP_INVERT old_stencil = NOT old_stencil"
| "ApplyStencilOp fmt stencilReplace GE_STENCILOP_INCR old_stencil =
    (case fmt of
       GE_FORMAT_8888 \<Rightarrow> if old_stencil \<noteq> 0xFF then old_stencil + 1 else old_stencil
     | GE_FORMAT_5551 \<Rightarrow> 0xFF
     | GE_FORMAT_4444 \<Rightarrow> if old_stencil < 0xF0 then old_stencil + 0x10 else old_stencil
     | _ \<Rightarrow> old_stencil)"
| "ApplyStencilOp fmt stencilReplace GE_STENCILOP_DECR old_stencil =
    (case fmt of
       GE_FORMAT_4444 \<Rightarrow> if old_stencil \<ge> 0x10 then old_stencil - 0x10 else old_stencil
     | GE_FORMAT_5551 \<Rightarrow> 0
     | _ \<Rightarrow> if old_stencil \<noteq> 0 then old_stencil - 1 else old_stencil)"

subsection \<open>Blend state classification\<close>

text \<open>
  Modelled from the spec: \<^verbatim>\<open>PixelBlendState\<close> is declared in \<^verbatim>\<open>DrawPixel.h\<close>, which is not
  among the sources; the record has the five flags that \<^verbatim>\<open>ComputePixelBlendState\<close>
  (lines 594-678) assigns. The function updates the state it is given by reference; here
  it returns the updated state.
\<close>

record PixelBlendState =
  usesFactors :: bool
  usesDstAlpha :: bool
  dstFactorIsInverse :: bool
  srcColorAsFactor :: bool
  dstColorAsFactor :: bool

text \<open>
  Modelled from the spec: the initial value of a \<^verbatim>\<open>PixelBlendState\<close> is set in
  \<^verbatim>\<open>DrawPixel.h\<close>, which is not among the sources. The classification starts from a
  state on which nothing is flagged (the spec's "flags whether ...").
\<close>

definition PixelBlendState_new :: PixelBlendState where
  "PixelBlendState_new =
     \<lparr>usesFactors = False, usesDstAlpha = False, dstFactorIsInverse = False,
      srcColorAsFactor = False, dstColorAsFactor = False\<rparr>"

definition blendSrcFlags :: "PixelFuncID \<Rightarrow> PixelBlendState \<Rightarrow> PixelBlendState" where
  \<comment> \<open>the switch on \<^verbatim>\<open>id.AlphaBlendSrc()\<close>, lines 609-631\<close>
  "blendSrcFlags pixelID state =
    (case AlphaBlendSrc pixelID of
       DSTALPHA \<Rightarrow> state\<lparr>usesDstAlpha := True\<rparr>
     | INVDSTALPHA \<Rightarrow> state\<lparr>usesDstAlpha := True\<rparr>
     | DOUBLEDSTALPHA \<Rightarrow> state\<lparr>usesDstAlpha := True\<rparr>
     | DOUBLEINVDSTALPHA \<Rightarrow> state\<lparr>usesDstAlpha := True\<rparr>
     | OTHERCOLOR \<Rightarrow> state\<lparr>dstColorAsFactor := True\<rparr>
     | INVOTHERCOLOR \<Rightarrow> state\<lparr>dstColorAsFactor := True\<rparr>
     | SRCALPHA \<Rightarrow> state\<lparr>srcColorAsFactor := True\<rparr>
     | INVSRCALPHA \<Rightarrow> state\<lparr>srcColorAsFactor := True\<rparr>
     | DOUBLESRCALPHA \<Rightarrow> state\<lparr>srcColorAsFactor := True\<rparr>
     | DOUBLEINVSRCALPHA \<Rightarrow> state\<lparr>srcColorAsFactor := True\<rparr>
     | PixelBlendFactor_other \<Rightarrow> state)"

definition blendDstFlags :: "PixelFuncID \<Rightarrow> PixelBlendState \<Rightarrow> PixelBlendState" where
  \<comment> \<open>the switch on \<^verbatim>\<open>id.AlphaBlendDst()\<close>, lines 633-674\<close>
  "blendDstFlags pixelID state =
    (case AlphaBlendDst pixelID of
       INVSRCALPHA \<Rightarrow>
         state\<lparr>dstFactorIsInverse := (AlphaBlendSrc pixelID = SRCALPHA), srcColorAsFactor := True\<rparr>
     | DOUBLEINVSRCALPHA \<Rightarrow>
         state\<lparr>dstFactorIsInverse := (AlphaBlendSrc pixelID = DOUBLESRCALPHA), srcColorAsFactor := True\<rparr>
     | DSTALPHA \<Rightarrow> state\<lparr>usesDstAlpha := True\<rparr>
     | INVDSTALPHA \<Rightarrow>
         state\<lparr>dstFactorIsInverse := (AlphaBlendSrc pixelID = DSTALPHA), usesDstAlpha := True\<rparr>
     | DOUBLEDSTALPHA \<Rightarrow> state\<lparr>usesDstAlpha := True\<rparr>
     | DOUBLEINVDSTALPHA \<Rightarrow>
         state\<lparr>dstFactorIsInverse := (AlphaBlendSrc pixelID = DOUBLEDSTALPHA), usesDstAlpha := True\<rparr>
     | OTHERCOLOR \<Rightarrow> state\<lparr>srcColorAsFactor := True\<rparr>
     | INVOTHERCOLOR \<Rightarrow> state\<lparr>srcColorAsFactor := True\<rparr>
     | SRCALPHA \<Rightarrow> state\<lparr>srcColorAsFactor := True\<rparr>
     | DOUBLESRCALPHA \<Rightarrow> state\<lparr>srcColorAsFactor := True\<rparr>
     | PixelBlendFactor_other \<Rightarrow> state)"

definition ComputePixelBlendState :: "PixelBlendState \<Rightarrow> PixelFuncID \<Rightarrow> PixelBlendState" where
  "ComputePixelBlendState state0 pixelID =
    (let state =
       (case AlphaBlendEq pixelID of
          GE_BLENDMODE_MUL_AND_ADD \<Rightarrow> state0\<lparr>usesFactors := True\<rparr>
        | GE_BLENDMODE_MUL_AND_SUBTRACT \<Rightarrow> state0\<lparr>usesFactors := True\<rparr>
        | GE_BLENDMODE_MUL_AND_SUBTRACT_REVERSE \<Rightarrow> state0\<lparr>usesFactors := True\<rparr>
        | GE_BLENDMODE_MIN \<Rightarrow> state0
        | GE_BLENDMODE_MAX \<Rightarrow> state0
        | GE_BLENDMODE_ABSDIFF \<Rightarrow> state0)
     in if usesFactors state then
          (let state = blendDstFlags pixelID (blendSrcFlags pixelID state)
           in state\<lparr>dstColorAsFactor := (dstColorAsFactor state \<or> usesDstAlpha state)\<rparr>)
        else state)"

subsection \<open>Vectors of integers\<close>

text \<open>
  Modelled from the spec: \<^verbatim>\<open>Vec3<int>\<close> and \<^verbatim>\<open>Vec4<int>\<close> are declared in \<^verbatim>\<open>Math3D.h\<close>,
  which is not among the sources. A colour is three or four C \<^verbatim>\<open>int\<close>s, one per
  channel; \<^verbatim>\<open>Clamp\<close> bounds every channel; \<^verbatim>\<open>ToRGB\<close> and \<^verbatim>\<open>ToRGBA\<close> clamp every channel
  to \<^verbatim>\<open>[0, 255]\<close> (the comment at line 467) and pack red into the low byte;
  \<^verbatim>\<open>FromRGB\<close> and \<^verbatim>\<open>FromRGBA\<close> unpack. Arithmetic is channel by channel, and the division
  of C++ truncates towards zero (\<^term>\<open>(sdiv)\<close>). A C \<^verbatim>\<open>int\<close> is an integer here: signed
  overflow is undefined in C++, and no property below rests on arithmetic past 32 bits.
\<close>

datatype Vec3 = Vec3 (r3: int) (g3: int) (b3: int)

datatype Vec4 = Vec4 (r4: int) (g4: int) (b4: int) (a4: int)

definition clamp_int :: "int \<Rightarrow> int \<Rightarrow> int \<Rightarrow> int" where
  "clamp_int lo hi v = (if v < lo then lo else if v > hi then hi else v)"

definition Vec4_Clamp :: "Vec4 \<Rightarrow> int \<Rightarrow> int \<Rightarrow> Vec4" where
  "Vec4_Clamp v lo hi =
     Vec4 (clamp_int lo hi (r4 v)) (clamp_int lo hi (g4 v)) (clamp_int lo hi (b4 v))
       (clamp_int lo hi (a4 v))"

definition rgb :: "Vec4 \<Rightarrow> Vec3" where
  "rgb v = Vec3 (r4 v) (g4 v) (b4 v)"

definition clamp_u8 :: "int \<Rightarrow> u32" where
  "clamp_u8 v = word_of_int (clamp_int 0 255 v)"

definition Vec3_ToRGB :: "Vec3 \<Rightarrow> u32" where
  "Vec3_ToRGB v = clamp_u8 (r3 v) OR push_bit 8 (clamp_u8 (g3 v)) OR push_bit 16 (clamp_u8 (b3 v))"

definition Vec4_ToRGBA :: "Vec4 \<Rightarrow> u32" where
  "Vec4_ToRGBA v =
     clamp_u8 (r4 v) OR push_bit 8 (clamp_u8 (g4 v)) OR push_bit 16 (clamp_u8 (b4 v))
       OR push_bit 24 (clamp_u8 (a4 v))"

definition Vec3_FromRGB :: "u32 \<Rightarrow> Vec3" where
  "Vec3_FromRGB c =
     Vec3 (uint (c AND 0xFF)) (uint (drop_bit 8 c AND 0xFF)) (uint (drop_bit 16 c AND 0xFF))"

definition Vec4_FromRGBA :: "u32 \<Rightarrow> Vec4" where
  "Vec4_FromRGBA c =
     Vec4 (uint (c AND 0xFF)) (uint (drop_bit 8 c AND 0xFF)) (uint (drop_bit 16 c AND 0xFF))
       (uint (drop_bit 24 c AND 0xFF))"

definition Vec3_add_all :: "Vec3 \<Rightarrow> int \<Rightarrow> Vec3" where
  \<comment> \<open>\<^verbatim>\<open>v += Vec3<int>::AssignToAll(d)\<close>\<close>
  "Vec3_add_all v d = Vec3 (r3 v + d) (g3 v + d) (b3 v + d)"

definition Vec4_add_all :: "Vec4 \<Rightarrow> int \<Rightarrow> Vec4" where
  \<comment> \<open>\<^verbatim>\<open>v += Vec4<int>::AssignToAll(d)\<close>\<close>
  "Vec4_add_all v d = Vec4 (r4 v + d) (g4 v + d) (b4 v + d) (a4 v + d)"

subsection \<open>Helpers of other files\<close>

text \<open>
  The colour conversions of \<^verbatim>\<open>ColorConv.h\<close> and \<^verbatim>\<open>AlphaBlendingResult\<close> of
  \<^verbatim>\<open>Rasterizer.cpp\<close> are not among the sources. They are parameters of the model: the
  record below holds one function for each, and every theorem holds for every choice of
  them.
\<close>

record extern =
  Convert4To8 :: "u8 \<Rightarrow> u8"
  RGB565ToRGBA8888 :: "u16 \<Rightarrow> u32"
  RGBA5551ToRGBA8888 :: "u16 \<Rightarrow> u32"
  RGBA4444ToRGBA8888 :: "u16 \<Rightarrow> u32"
  RGBA8888ToRGB565 :: "u32 \<Rightarrow> u16"
  RGBA8888ToRGBA5551 :: "u32 \<Rightarrow> u16"
  RGBA8888ToRGBA4444 :: "u32 \<Rightarrow> u16"
  AlphaBlendingResult :: "PixelFuncID \<Rightarrow> Vec4 \<Rightarrow> Vec4 \<Rightarrow> Vec3"

subsection \<open>The framebuffer and the depth buffer\<close>

text \<open>
  Modelled from the spec: the globals \<^verbatim>\<open>fb\<close> and \<^verbatim>\<open>depthbuf\<close> and their accessors
  \<^verbatim>\<open>Get16\<close>, \<^verbatim>\<open>Set16\<close>, \<^verbatim>\<open>Get32\<close>, \<^verbatim>\<open>Set32\<close> are declared in \<^verbatim>\<open>Rasterizer.h\<close> and
  \<^verbatim>\<open>SoftGpu.h\<close>, which are not among the sources. A surface is addressed by
  \<^verbatim>\<open>(x, y, stride)\<close>: the cell of a pixel is \<^verbatim>\<open>x + y * stride\<close>. The framebuffer is one
  memory, which the 16-bit formats read as 16-bit cells and the 32-bit format as 32-bit
  cells. The model keeps the two readings apart, as two components of the state: one
  call of the pipeline uses one format and so one reading, and the properties below
  speak of the reading of the format in use. How a write at one width shows at the other
  is not modelled. Cells outside the surface are the caller's responsibility in the
  source; here every index has a cell.
\<close>

record buffers =
  fb16 :: "int \<Rightarrow> u16"
  fb32 :: "int \<Rightarrow> u32"
  depthbuf :: "int \<Rightarrow> u16"

definition fb_Get16 :: "buffers \<Rightarrow> int \<Rightarrow> int \<Rightarrow> int \<Rightarrow> u16" where
  "fb_Get16 s x y stride = fb16 s (x + y * stride)"

definition fb_Set16 :: "int \<Rightarrow> int \<Rightarrow> int \<Rightarrow> u16 \<Rightarrow> buffers \<Rightarrow> buffers" where
  "fb_Set16 x y stride v s = s\<lparr>fb16 := (fb16 s)(x + y * stride := v)\<rparr>"

definition fb_Get32 :: "buffers \<Rightarrow> int \<Rightarrow> int \<Rightarrow> int \<Rightarrow> u32" where
  "fb_Get32 s x y stride = fb32 s (x + y * stride)"

definition fb_Set32 :: "int \<Rightarrow> int \<Rightarrow> int \<Rightarrow> u32 \<Rightarrow> buffers \<Rightarrow> buffers" where
  "fb_Set32 x y stride v s = s\<lparr>fb32 := (fb32 s)(x + y * stride := v)\<rparr>"

definition depthbuf_Get16 :: "buffers \<Rightarrow> int \<Rightarrow> int \<Rightarrow> int \<Rightarrow> u16" where
  "depthbuf_Get16 s x y stride = depthbuf s (x + y * stride)"

definition depthbuf_Set16 :: "int \<Rightarrow> int \<Rightarrow> int \<Rightarrow> u16 \<Rightarrow> buffers \<Rightarrow> buffers" where
  "depthbuf_Set16 x y stride v s = s\<lparr>depthbuf := (depthbuf s)(x + y * stride := v)\<rparr>"

subsection \<open>Pixel accessors (lines 53-154)\<close>

text \<open>
  A function that reads the buffers takes them last; one that writes them returns the
  buffers it leaves. A function that calls a helper of another file takes the record of
  helpers first. The parameter \<^verbatim>\<open>value\<close> of the source is \<^verbatim>\<open>v\<close> here. Conversions between
  widths are \<^term>\<open>ucast\<close>: it keeps the low bits when it narrows and adds zeros when it
  widens, as the conversions between unsigned types of C++ do.
\<close>

definition GetPixelStencil :: "extern \<Rightarrow> GEBufferFormat \<Rightarrow> int \<Rightarrow> int \<Rightarrow> int \<Rightarrow> buffers \<Rightarrow> u8" where
  "GetPixelStencil E fmt fbStride x y s =
    (if fmt = GE_FORMAT_565 then 0
     else if fmt = GE_FORMAT_5551 then
       (if fb_Get16 s x y fbStride AND 0x8000 \<noteq> 0 then 0xFF else 0)
     else if fmt = GE_FORMAT_4444 then
       Convert4To8 E (ucast (drop_bit 12 (fb_Get16 s x y fbStride)))
     else ucast (drop_bit 24 (fb_Get32 s x y fbStride)))"

definition SetPixelStencil ::
  "GEBufferFormat \<Rightarrow> int \<Rightarrow> u32 \<Rightarrow> int \<Rightarrow> int \<Rightarrow> u8 \<Rightarrow> buffers \<Rightarrow> buffers" where
  "SetPixelStencil fmt fbStride targetWriteMask x y v s =
    (if fmt = GE_FORMAT_565 then s
     else if fmt = GE_FORMAT_5551 then
       (if targetWriteMask AND 0x8000 = 0 then
          (let pixel = fb_Get16 s x y fbStride AND NOT 0x8000;
               pixel = pixel OR push_bit 8 (ucast (v AND 0x80))
           in fb_Set16 x y fbStride pixel s)
        else s)
     else if fmt = GE_FORMAT_4444 then
       (let write_mask = (ucast (targetWriteMask OR 0x0FFF) :: u16);
            pixel = fb_Get16 s x y fbStride AND write_mask;
            pixel = pixel OR (push_bit 8 (ucast v) AND NOT write_mask)
        in fb_Set16 x y fbStride pixel s)
     else
       (let write_mask = targetWriteMask OR 0x00FFFFFF;
            pixel = fb_Get32 s x y fbStride AND write_mask;
            pixel = pixel OR (push_bit 24 (ucast v) AND NOT write_mask)
        in fb_Set32 x y fbStride pixel s))"

definition GetPixelDepth :: "int \<Rightarrow> int \<Rightarrow> int \<Rightarrow> buffers \<Rightarrow> u16" where
  "GetPixelDepth x y stride s = depthbuf_Get16 s x y stride"

definition SetPixelDepth :: "int \<Rightarrow> int \<Rightarrow> int \<Rightarrow> u16 \<Rightarrow> buffers \<Rightarrow> buffers" where
  "SetPixelDepth x y stride v s = depthbuf_Set16 x y stride v s"

definition GetPixelColor :: "extern \<Rightarrow> GEBufferFormat \<Rightarrow> int \<Rightarrow> int \<Rightarrow> int \<Rightarrow> buffers \<Rightarrow> u32" where
  "GetPixelColor E fmt fbStride x y s =
    (case fmt of
       GE_FORMAT_565 \<Rightarrow> RGB565ToRGBA8888 E (fb_Get16 s x y fbStride) AND 0x00FFFFFF
     | GE_FORMAT_5551 \<Rightarrow> RGBA5551ToRGBA8888 E (fb_Get16 s x y fbStride)
     | GE_FORMAT_4444 \<Rightarrow> RGBA4444ToRGBA8888 E (fb_Get16 s x y fbStride)
     | GE_FORMAT_8888 \<Rightarrow> fb_Get32 s x y fbStride
     | GE_FORMAT_other \<Rightarrow> 0)"

definition mask16 :: "(u32 \<Rightarrow> u16) \<Rightarrow> u32 \<Rightarrow> u32 \<Rightarrow> u32 \<Rightarrow> u16" where
  \<comment> \<open>the body shared by the three 16-bit cases of \<^verbatim>\<open>SetPixelColor\<close>: convert, then merge
      with the converted old value under the mask; \<^verbatim>\<open>Set16\<close> keeps the low 16 bits\<close>
  "mask16 conv v old_value targetWriteMask =
    (let v1 = (ucast (conv v) :: u32);
         v2 = (if targetWriteMask \<noteq> 0
               then (v1 AND NOT targetWriteMask) OR (ucast (conv old_value) AND targetWriteMask)
               else v1)
     in ucast v2)"

definition SetPixelColor ::
  "extern \<Rightarrow> GEBufferFormat \<Rightarrow> int \<Rightarrow> int \<Rightarrow> int \<Rightarrow> u32 \<Rightarrow> u32 \<Rightarrow> u32 \<Rightarrow> buffers \<Rightarrow> buffers" where
  "SetPixelColor E fmt fbStride x y v old_value targetWriteMask s =
    (case fmt of
       GE_FORMAT_565 \<Rightarrow>
         fb_Set16 x y fbStride (mask16 (RGBA8888ToRGB565 E) v old_value targetWriteMask) s
     | GE_FORMAT_5551 \<Rightarrow>
         fb_Set16 x y fbStride (mask16 (RGBA8888ToRGBA5551 E) v old_value targetWriteMask) s
     | GE_FORMAT_4444 \<Rightarrow>
         fb_Set16 x y fbStride (mask16 (RGBA8888ToRGBA4444 E) v old_value targetWriteMask) s
     | GE_FORMAT_8888 \<Rightarrow>
         fb_Set32 x y fbStride ((v AND NOT targetWriteMask) OR (old_value AND targetWriteMask)) s
     | GE_FORMAT_other \<Rightarrow> s)"

subsection \<open>The tests (lines 156-241 and 295-326)\<close>

text \<open>
  \<^verbatim>\<open>AlphaTestPassed\<close> compares \<^verbatim>\<open>int\<close>s: the alpha it is given and the reference byte,
  promoted. \<^verbatim>\<open>StencilTestPassed\<close> and \<^verbatim>\<open>DepthTestPassed\<close> compare unsigned bytes and
  16-bit values; the order of \<^typ>\<open>'a word\<close> is the unsigned one.
\<close>

definition AlphaTestPassed :: "PixelFuncID \<Rightarrow> int \<Rightarrow> bool" where
  "AlphaTestPassed pixelID alpha0 =
    (let ref = uint (alphaTestRef pixelID);
         alpha = (if hasAlphaTestMask pixelID
                  then alpha0 AND uint (alphaTestMask (cached pixelID)) else alpha0)
     in case AlphaTestFunc pixelID of
          GE_COMP_NEVER \<Rightarrow> False
        | GE_COMP_ALWAYS \<Rightarrow> True
        | GE_COMP_EQUAL \<Rightarrow> alpha = ref
        | GE_COMP_NOTEQUAL \<Rightarrow> alpha \<noteq> ref
        | GE_COMP_LESS \<Rightarrow> alpha < ref
        | GE_COMP_LEQUAL \<Rightarrow> alpha \<le> ref
        | GE_COMP_GREATER \<Rightarrow> alpha > ref
        | GE_COMP_GEQUAL \<Rightarrow> alpha \<ge> ref)"

definition ColorTestPassed :: "PixelFuncID \<Rightarrow> Vec3 \<Rightarrow> bool" where
  "ColorTestPassed pixelID color =
    (let mask = colorTestMask (cached pixelID);
         c = Vec3_ToRGB color AND mask;
         ref = colorTestRef (cached pixelID)
     in case colorTestFunc (cached pixelID) of
          GE_COMP_NEVER \<Rightarrow> False
        | GE_COMP_ALWAYS \<Rightarrow> True
        | GE_COMP_EQUAL \<Rightarrow> c = ref
        | GE_COMP_NOTEQUAL \<Rightarrow> c \<noteq> ref
        | _ \<Rightarrow> True)"

definition StencilTestPassed :: "PixelFuncID \<Rightarrow> u8 \<Rightarrow> bool" where
  "StencilTestPassed pixelID stencil0 =
    (let stencil = (if hasStencilTestMask pixelID
                    then stencil0 AND stencilTestMask (cached pixelID) else stencil0);
         ref = stencilTestRef pixelID
     in case StencilTestFunc pixelID of
          GE_COMP_NEVER \<Rightarrow> False
        | GE_COMP_ALWAYS \<Rightarrow> True
        | GE_COMP_EQUAL \<Rightarrow> ref = stencil
        | GE_COMP_NOTEQUAL \<Rightarrow> ref \<noteq> stencil
        | GE_COMP_LESS \<Rightarrow> ref < stencil
        | GE_COMP_LEQUAL \<Rightarrow> ref \<le> stencil
        | GE_COMP_GREATER \<Rightarrow> ref > stencil
        | GE_COMP_GEQUAL \<Rightarrow> ref \<ge> stencil)"

definition DepthTestPassed :: "GEComparison \<Rightarrow> int \<Rightarrow> int \<Rightarrow> int \<Rightarrow> u16 \<Rightarrow> buffers \<Rightarrow> bool" where
  "DepthTestPassed func x y stride z s =
    (let reference_z = GetPixelDepth x y stride s
     in case func of
          GE_COMP_NEVER \<Rightarrow> False
        | GE_COMP_ALWAYS \<Rightarrow> True
        | GE_COMP_EQUAL \<Rightarrow> z = reference_z
        | GE_COMP_NOTEQUAL \<Rightarrow> z \<noteq> reference_z
        | GE_COMP_LESS \<Rightarrow> z < reference_z
        | GE_COMP_LEQUAL \<Rightarrow> z \<le> reference_z
        | GE_COMP_GREATER \<Rightarrow> z > reference_z
        | GE_COMP_GEQUAL \<Rightarrow> z \<ge> reference_z)"

subsection \<open>Logic operations (lines 328-397)\<close>

definition ApplyLogicOp :: "GELogicOp \<Rightarrow> u32 \<Rightarrow> u32 \<Rightarrow> u32" where
  "ApplyLogicOp op old_color new_color =
    (case op of
       GE_LOGIC_CLEAR \<Rightarrow> new_color AND 0xFF000000
     | GE_LOGIC_AND \<Rightarrow> new_color AND (old_color OR 0xFF000000)
     | GE_LOGIC_AND_REVERSE \<Rightarrow> new_color AND (NOT old_color OR 0xFF000000)
     | GE_LOGIC_COPY \<Rightarrow> new_color
     | GE_LOGIC_AND_INVERTED \<Rightarrow>
         (NOT new_color AND (old_color AND 0x00FFFFFF)) OR (new_color AND 0xFF000000)
     | GE_LOGIC_NOOP \<Rightarrow> (old_color AND 0x00FFFFFF) OR (new_color AND 0xFF000000)
     | GE_LOGIC_XOR \<Rightarrow> new_color XOR (old_color AND 0x00FFFFFF)
     | GE_LOGIC_OR \<Rightarrow> new_color OR (old_color AND 0x00FFFFFF)
     | GE_LOGIC_NOR \<Rightarrow>
         (NOT (new_color OR old_color) AND 0x00FFFFFF) OR (new_color AND 0xFF000000)
     | GE_LOGIC_EQUIV \<Rightarrow>
         (NOT (new_color XOR old_color) AND 0x00FFFFFF) OR (new_color AND 0xFF000000)
     | GE_LOGIC_INVERTED \<Rightarrow> (NOT old_color AND 0x00FFFFFF) OR (new_color AND 0xFF000000)
     | GE_LOGIC_OR_REVERSE \<Rightarrow> new_color OR (NOT old_color AND 0x00FFFFFF)
     | GE_LOGIC_COPY_INVERTED \<Rightarrow> (NOT new_color AND 0x00FFFFFF) OR (new_color AND 0xFF000000)
     | GE_LOGIC_OR_INVERTED \<Rightarrow>
         ((NOT new_color OR old_color) AND 0x00FFFFFF) OR (new_color AND 0xFF000000)
     | GE_LOGIC_NAND \<Rightarrow>
         (NOT (new_color AND old_color) AND 0x00FFFFFF) OR (new_color AND 0xFF000000)
     | GE_LOGIC_SET \<Rightarrow> new_color OR 0x00FFFFFF)"

subsection \<open>The generic pipeline (lines 399-498)\<close>

text \<open>
  \<^verbatim>\<open>DrawSinglePixel<clearMode, fbFormat>\<close> returns nothing and writes the buffers. The
  model takes the two template arguments first and the buffers last, and returns the
  buffers it leaves together with the place where it returned: one constructor for each
  \<^verbatim>\<open>return\<close> statement of the function and one for its end.

  The body is in three definitions, in the order of the source: \<^verbatim>\<open>prim_color\<close> after the
  clamp and the fog (lines 401 and 412-418), the writes once no test has rejected the
  pixel (lines 452-497), and the function with its tests. At lines 476-481 the two
  branches of the \<^verbatim>\<open>#if\<close> pack the same value, since the stencil is a byte; the model has
  the second.
\<close>

datatype pixel_exit =
    Exit_DepthRange    \<comment> \<open>line 405\<close>
  | Exit_AlphaTest     \<comment> \<open>line 409\<close>
  | Exit_ColorTest     \<comment> \<open>line 422\<close>
  | Exit_StencilFail   \<comment> \<open>line 435\<close>
  | Exit_ZFail         \<comment> \<open>line 442\<close>
  | Exit_DepthTest     \<comment> \<open>line 448\<close>
  | Exit_Written       \<comment> \<open>line 498, after \<^verbatim>\<open>SetPixelColor\<close>\<close>

definition ditherOffset :: "PixelFuncID \<Rightarrow> int \<Rightarrow> int \<Rightarrow> int" where
  \<comment> \<open>\<^verbatim>\<open>pixelID.cached.ditherMatrix[(y & 3) * 4 + (x & 3)]\<close>\<close>
  "ditherOffset pixelID x y = ditherMatrix (cached pixelID) (nat ((y AND 3) * 4 + (x AND 3)))"

definition applyFogBlend :: "PixelFuncID \<Rightarrow> int \<Rightarrow> Vec4 \<Rightarrow> Vec4" where
  \<comment> \<open>the body of the \<^verbatim>\<open>if\<close> at lines 412-418\<close>
  "applyFogBlend pixelID fog prim_color =
    (let fogColor = Vec3_FromRGB (fogColor (cached pixelID));
         fogged = Vec3 ((r4 prim_color * fog + r3 fogColor * (255 - fog)) sdiv 255)
                       ((g4 prim_color * fog + g3 fogColor * (255 - fog)) sdiv 255)
                       ((b4 prim_color * fog + b3 fogColor * (255 - fog)) sdiv 255)
     in Vec4 (r3 fogged) (g3 fogged) (b3 fogged) (a4 prim_color))"

definition testedColor :: "bool \<Rightarrow> PixelFuncID \<Rightarrow> int \<Rightarrow> Vec4 \<Rightarrow> Vec4" where
  \<comment> \<open>\<^verbatim>\<open>prim_color\<close> as the colour test reads it: clamped at line 401, fogged at lines 412-418\<close>
  "testedColor clearMode_t pixelID fog color_in =
    (let prim_color = Vec4_Clamp color_in 0 255
     in if applyFog pixelID \<and> \<not> clearMode_t then applyFogBlend pixelID fog prim_color
        else prim_color)"

definition writePixel ::
  "extern \<Rightarrow> bool \<Rightarrow> GEBufferFormat \<Rightarrow> int \<Rightarrow> int \<Rightarrow> int \<Rightarrow> Vec4 \<Rightarrow> u8 \<Rightarrow> u32 \<Rightarrow> PixelFuncID
     \<Rightarrow> buffers \<Rightarrow> buffers" where
  \<comment> \<open>lines 452-497: what the function does once no test has rejected the pixel\<close>
  "writePixel E clearMode_t fbFormat_t x y z prim_color stencil targetWriteMask pixelID s0 =
    (let s = (if depthWrite pixelID \<and> \<not> clearMode_t
              then SetPixelDepth x y (depthbufStride (cached pixelID)) (word_of_int z) s0
              else s0);
         old_color = GetPixelColor E fbFormat_t (framebufStride (cached pixelID)) x y s;
         new_color =
           (if alphaBlend pixelID \<and> \<not> clearMode_t then
              (let dst = Vec4_FromRGBA old_color;
                   blended = AlphaBlendingResult E pixelID prim_color dst;
                   blended = (if dithering pixelID
                              then Vec3_add_all blended (ditherOffset pixelID x y)
                              else blended)
               in Vec3_ToRGB blended OR push_bit 24 (ucast stencil))
            else
              (let prim_color = (if dithering pixelID
                                 then Vec4_add_all prim_color (ditherOffset pixelID x y)
                                 else prim_color)
               in Vec4_ToRGBA
                    (Vec4 (r4 prim_color) (g4 prim_color) (b4 prim_color) (uint stencil))));
         new_color = (if applyLogicOp pixelID \<and> \<not> clearMode_t
                      then ApplyLogicOp (logicOp (cached pixelID)) old_color new_color
                      else new_color);
         new_color = (if clearMode_t \<and> \<not> ColorClear pixelID
                      then (new_color AND 0xFF000000) OR (old_color AND 0x00FFFFFF)
                      else new_color);
         new_color = (if clearMode_t \<and> \<not> StencilClear pixelID
                      then (new_color AND 0x00FFFFFF) OR (old_color AND 0xFF000000)
                      else new_color)
     in SetPixelColor E fbFormat_t (framebufStride (cached pixelID)) x y new_color old_color
          targetWriteMask s)"

definition DrawSinglePixel ::
  "extern \<Rightarrow> bool \<Rightarrow> GEBufferFormat \<Rightarrow> int \<Rightarrow> int \<Rightarrow> int \<Rightarrow> int \<Rightarrow> Vec4 \<Rightarrow> PixelFuncID
     \<Rightarrow> buffers \<Rightarrow> pixel_exit \<times> buffers" where
  "DrawSinglePixel E clearMode_t fbFormat_t x y z fog color_in pixelID s =
    (let prim_color0 = Vec4_Clamp color_in 0 255 in
     if applyDepthRange pixelID \<and> (z < minz (cached pixelID) \<or> z > maxz (cached pixelID))
     then (Exit_DepthRange, s)
     else if AlphaTestFunc pixelID \<noteq> GE_COMP_ALWAYS \<and> \<not> clearMode_t
             \<and> \<not> AlphaTestPassed pixelID (a4 prim_color0)
     then (Exit_AlphaTest, s)
     else
      (let prim_color = testedColor clearMode_t pixelID fog color_in in
       if colorTest pixelID \<and> \<not> clearMode_t \<and> \<not> ColorTestPassed pixelID (rgb prim_color)
       then (Exit_ColorTest, s)
       else
        (let targetWriteMask = (if applyColorWriteMask pixelID
                                then colorWriteMask (cached pixelID) else 0);
             fbStride = framebufStride (cached pixelID);
             zStride = depthbufStride (cached pixelID);
             stencil = (if clearMode_t then word_of_int (a4 prim_color)
                        else GetPixelStencil E fbFormat_t fbStride x y s)
         in
         if clearMode_t then
           (Exit_Written,
            writePixel E clearMode_t fbFormat_t x y z prim_color stencil targetWriteMask pixelID
              (if DepthClear pixelID then SetPixelDepth x y zStride (word_of_int z) s else s))
         else if stencilTest pixelID then
           (let stencilReplace = (if hasStencilTestMask pixelID
                                  then stencilRef (cached pixelID) else stencilTestRef pixelID)
            in
            if \<not> StencilTestPassed pixelID stencil then
              (Exit_StencilFail,
               SetPixelStencil fbFormat_t fbStride targetWriteMask x y
                 (ApplyStencilOp fbFormat_t stencilReplace (SFail pixelID) stencil) s)
            else if DepthTestFunc pixelID \<noteq> GE_COMP_ALWAYS
                    \<and> \<not> DepthTestPassed (DepthTestFunc pixelID) x y zStride (word_of_int z) s
            then
              (Exit_ZFail,
               SetPixelStencil fbFormat_t fbStride targetWriteMask x y
                 (ApplyStencilOp fbFormat_t stencilReplace (ZFail pixelID) stencil) s)
            else
              (Exit_Written,
               writePixel E clearMode_t fbFormat_t x y z prim_color
                 (ApplyStencilOp fbFormat_t stencilReplace (ZPass pixelID) stencil)
                 targetWriteMask pixelID s))
         else if DepthTestFunc pixelID \<noteq> GE_COMP_ALWAYS
                 \<and> \<not> DepthTestPassed (DepthTestFunc pixelID) x y zStride (word_of_int z) s
         then (Exit_DepthTest, s)
         else
           (Exit_Written,
            writePixel E clearMode_t fbFormat_t x y z prim_color stencil targetWriteMask
              pixelID s))))"

subsection \<open>Routines and their selection (lines 500-534)\<close>

text \<open>
  A \<^verbatim>\<open>SingleFunc\<close> is a function pointer: the address of one of the instances of
  \<^verbatim>\<open>DrawSinglePixel\<close>, the address of a routine in the code block, or \<^verbatim>\<open>nullptr\<close>
  (\<^term>\<open>None\<close>). In \<^verbatim>\<open>GenericSingle\<close> a format outside the four falls out of both
  switches and reaches \<^verbatim>\<open>return nullptr\<close>; the assertion before it is a debugging aid and
  is not modelled.
\<close>

datatype routine =
    DrawSinglePixel_ptr bool GEBufferFormat   \<comment> \<open>\<^verbatim>\<open>&DrawSinglePixel<clearMode, fbFormat>\<close>\<close>
  | Compiled nat                              \<comment> \<open>an address in the code block\<close>

type_synonym SingleFunc = "routine option"

definition GenericSingle :: "PixelFuncID \<Rightarrow> SingleFunc" where
  "GenericSingle pixelID =
    (case (if clearMode pixelID then
             (case fbFormat pixelID of
                GE_FORMAT_565 \<Rightarrow> Some (DrawSinglePixel_ptr True GE_FORMAT_565)
              | GE_FORMAT_5551 \<Rightarrow> Some (DrawSinglePixel_ptr True GE_FORMAT_5551)
              | GE_FORMAT_4444 \<Rightarrow> Some (DrawSinglePixel_ptr True GE_FORMAT_4444)
              | GE_FORMAT_8888 \<Rightarrow> Some (DrawSinglePixel_ptr True GE_FORMAT_8888)
              | GE_FORMAT_other \<Rightarrow> None)
           else None) of
       Some f \<Rightarrow> Some f
     | None \<Rightarrow>
         (case fbFormat pixelID of
            GE_FORMAT_565 \<Rightarrow> Some (DrawSinglePixel_ptr False GE_FORMAT_565)
          | GE_FORMAT_5551 \<Rightarrow> Some (DrawSinglePixel_ptr False GE_FORMAT_5551)
          | GE_FORMAT_4444 \<Rightarrow> Some (DrawSinglePixel_ptr False GE_FORMAT_4444)
          | GE_FORMAT_8888 \<Rightarrow> Some (DrawSinglePixel_ptr False GE_FORMAT_8888)
          | GE_FORMAT_other \<Rightarrow> None))"

subsection \<open>The routine cache (lines 536-592)\<close>

text \<open>
  Modelled from the spec: \<^verbatim>\<open>CodeBlock\<close>, the base class of \<^verbatim>\<open>PixelJitCache\<close>, is declared in
  \<^verbatim>\<open>Common/CodeBlock.h\<close>, which is not among the sources. It is "a single contiguous,
  pre-reserved executable memory arena with a monotonically advancing write cursor":
  the address and the size of the region and the offset of the cursor in it.
  \<^verbatim>\<open>GetSpaceLeft\<close> is the spec's \<^verbatim>\<open>RemainingSpace\<close>, \<^verbatim>\<open>GetCodePointer\<close> its
  \<^verbatim>\<open>CurrentWriteCursor\<close>, and \<^verbatim>\<open>CodeBlock::Clear\<close> its \<^verbatim>\<open>Reset\<close>, which "invalidates every
  previously issued address and rewinds the cursor to the start".

  Of the bytes of the region the record keeps what a caller of a routine depends on: at
  which addresses a routine starts, and for which configuration it was emitted.
\<close>

record CodeBlock =
  region :: nat
  region_size :: nat
  offset :: nat
  emitted :: "nat \<rightharpoonup> PixelFuncID"

definition CodeBlock_GetSpaceLeft :: "CodeBlock \<Rightarrow> nat" where
  "CodeBlock_GetSpaceLeft b = region_size b - offset b"

definition CodeBlock_GetCodePointer :: "CodeBlock \<Rightarrow> nat" where
  "CodeBlock_GetCodePointer b = region b + offset b"

definition CodeBlock_Clear :: "CodeBlock \<Rightarrow> CodeBlock" where
  "CodeBlock_Clear b = b\<lparr>offset := 0, emitted := Map.empty\<rparr>"

text \<open>
  Modelled from the spec: the class \<^verbatim>\<open>PixelJitCache\<close> is declared in \<^verbatim>\<open>DrawPixel.h\<close>, which
  is not among the sources. The record has the members that \<^verbatim>\<open>DrawPixel.cpp\<close> uses: the
  two maps (\<^verbatim>\<open>cache_\<close> and \<^verbatim>\<open>addresses_\<close> in the source; a name cannot end in an underscore
  here), and the four pointers to emitted constants that \<^verbatim>\<open>Clear\<close> resets. The key of the
  maps is the configuration; its equality and hash are declared in \<^verbatim>\<open>FuncId.h\<close>, and
  the spec has the cache compare keys structurally ("exact structural match of the
  configuration key"), which is the equality of the record.

  The last field is not in the code: it records, in order, every call of \<^verbatim>\<open>Clear\<close> and of
  \<^verbatim>\<open>CompileSingle\<close> that \<^verbatim>\<open>GetSingle\<close> makes, so that "compiled at most once" and "no
  reset in between" can be stated. Nothing reads it.
\<close>

record jit_consts =
  constBlendHalf_11_4s :: "nat option"
  constBlendInvert_11_4s :: "nat option"
  const255_16s :: "nat option"
  constBy255i :: "nat option"

datatype jit_event = Ev_Clear | Ev_CompileSingle PixelFuncID

record PixelJitCache =
  block :: CodeBlock
  const_ptrs :: jit_consts
  cache_map :: "PixelFuncID \<rightharpoonup> SingleFunc"
  addresses_map :: "PixelFuncID \<rightharpoonup> nat"
  events :: "jit_event list"

definition PixelJitCache_new :: "nat \<Rightarrow> PixelJitCache" where
  \<comment> \<open>the constructor, line 537: a code block of \<^verbatim>\<open>1024 * 64 * 4\<close> bytes at some address\<close>
  "PixelJitCache_new addr =
    \<lparr>block = \<lparr>region = addr, region_size = 1024 * 64 * 4, offset = 0, emitted = Map.empty\<rparr>,
     const_ptrs = \<lparr>constBlendHalf_11_4s = None, constBlendInvert_11_4s = None,
               const255_16s = None, constBy255i = None\<rparr>,
     cache_map = Map.empty, addresses_map = Map.empty, events = []\<rparr>"

definition GetSpaceLeft :: "PixelJitCache \<Rightarrow> nat" where
  "GetSpaceLeft J = CodeBlock_GetSpaceLeft (block J)"

definition GetCodePointer :: "PixelJitCache \<Rightarrow> nat" where
  "GetCodePointer J = CodeBlock_GetCodePointer (block J)"

definition Clear :: "PixelJitCache \<Rightarrow> PixelJitCache" where
  "Clear J =
    J\<lparr>block := CodeBlock_Clear (block J),
      cache_map := Map.empty,
      addresses_map := Map.empty,
      const_ptrs := \<lparr>constBlendHalf_11_4s = None, constBlendInvert_11_4s = None,
                 const255_16s = None, constBy255i = None\<rparr>,
      events := events J @ [Ev_Clear]\<rparr>"

text \<open>
  The build and the configuration: the two preprocessor conditions of line 583 and the
  flag \<^verbatim>\<open>g_Config.bSoftwareRenderingJit\<close>, which the cache reads and never writes.
\<close>

record platform =
  PPSSPP_ARCH_AMD64 :: bool
  PPSSPP_PLATFORM_UWP :: bool
  bSoftwareRenderingJit :: bool

definition jitEnabled :: "platform \<Rightarrow> bool" where
  "jitEnabled P = (PPSSPP_ARCH_AMD64 P \<and> \<not> PPSSPP_PLATFORM_UWP P \<and> bSoftwareRenderingJit P)"

text \<open>
  \<^verbatim>\<open>CompileSingle\<close> is defined in \<^verbatim>\<open>DrawPixelX86.cpp\<close>, which is not among the sources. It
  is a parameter of the model: any function that, from the key, the code block and the
  constant pointers, returns a routine (or \<^verbatim>\<open>nullptr\<close>) and the code block and constant
  pointers it leaves. The type says that it does not touch the two maps.
\<close>

type_synonym compiler =
  "PixelFuncID \<Rightarrow> CodeBlock \<times> jit_consts \<Rightarrow> SingleFunc \<times> CodeBlock \<times> jit_consts"

text \<open>
  Modelled from the spec: what \<^verbatim>\<open>CompileSingle\<close> (\<^verbatim>\<open>DrawPixelX86.cpp\<close>) emits. The code block
  "hands out write cursors to the generator" and its cursor is "monotonically
  advancing": the generator leaves the region where it is, does not move the cursor
  back, and leaves what is below the cursor as it was. "Compilation then emits a native
  routine equivalent in observable behavior to the Generic Pixel Pipeline for that
  exact configuration": a routine it returns starts between the old cursor and the new
  one and is a routine for the configuration it was asked for. It may return \<^verbatim>\<open>nullptr\<close>.
\<close>

definition CompileSingle_spec :: "compiler \<Rightarrow> bool" where
  "CompileSingle_spec CompileSingle \<longleftrightarrow>
    (\<forall>pixelID b c.
       case CompileSingle pixelID (b, c) of
         (func, b', c') \<Rightarrow>
           region b' = region b \<and> region_size b' = region_size b \<and> offset b \<le> offset b'
         \<and> (\<forall>a. a < region b + offset b \<longrightarrow> emitted b' a = emitted b a)
         \<and> (\<forall>r. func = Some r \<longrightarrow>
               (\<exists>a. r = Compiled a \<and> region b + offset b \<le> a \<and> a < region b' + offset b'
                    \<and> emitted b' a = Some pixelID)))"

text \<open>
  Modelled from the spec: a call through a \<^verbatim>\<open>SingleFunc\<close>. A pointer to an instance of
  \<^verbatim>\<open>DrawSinglePixel\<close> runs that instance. A pointer into the code block runs what the
  block holds at the address: for a routine emitted for a configuration, called with
  that configuration, the spec gives the buffers that the generic pipeline leaves for
  it (the instance of the configuration's clear-mode flag and format); of any other
  call through such a pointer it says nothing (\<^term>\<open>None\<close>).
\<close>

definition invoke ::
  "extern \<Rightarrow> CodeBlock \<Rightarrow> routine \<Rightarrow> int \<Rightarrow> int \<Rightarrow> int \<Rightarrow> int \<Rightarrow> Vec4 \<Rightarrow> PixelFuncID
     \<Rightarrow> buffers \<Rightarrow> buffers option" where
  "invoke E b f x y z fog color_in pixelID s =
    (case f of
       DrawSinglePixel_ptr cm fmt \<Rightarrow> Some (snd (DrawSinglePixel E cm fmt x y z fog color_in pixelID s))
     | Compiled a \<Rightarrow>
         (case emitted b a of
            None \<Rightarrow> None
          | Some k \<Rightarrow>
              if pixelID = k
              then Some (snd (DrawSinglePixel E (clearMode k) (fbFormat k) x y z fog color_in k s))
              else None))"

definition compileAndStore :: "compiler \<Rightarrow> PixelFuncID \<Rightarrow> PixelJitCache \<Rightarrow> SingleFunc \<times> PixelJitCache" where
  \<comment> \<open>lines 585-588\<close>
  "compileAndStore CompileSingle pixelID J =
    (let J1 = J\<lparr>addresses_map := (addresses_map J)(pixelID \<mapsto> GetCodePointer J)\<rparr>;
         (func, b, c) = CompileSingle pixelID (block J1, const_ptrs J1);
         J2 = J1\<lparr>block := b, const_ptrs := c, events := events J1 @ [Ev_CompileSingle pixelID]\<rparr>
     in (func, J2\<lparr>cache_map := (cache_map J2)(pixelID \<mapsto> func)\<rparr>))"

text \<open>
  \<^verbatim>\<open>GetSingle\<close> holds \<^verbatim>\<open>jitCacheLock\<close> from its first line to its return, so its calls do
  not overlap; a call is a function from the cache before it to the routine and the
  cache after it.
\<close>

definition GetSingle :: "platform \<Rightarrow> compiler \<Rightarrow> PixelFuncID \<Rightarrow> PixelJitCache \<Rightarrow> SingleFunc \<times> PixelJitCache" where
  "GetSingle P CompileSingle pixelID J =
    (case cache_map J pixelID of
       Some f \<Rightarrow> (f, J)
     | None \<Rightarrow>
         (let J1 = (if GetSpaceLeft J < 65536 then Clear J else J)
          in if jitEnabled P then compileAndStore CompileSingle pixelID J1
             else (None, J1)))"

definition GetSingleFunc :: "platform \<Rightarrow> compiler \<Rightarrow> PixelFuncID \<Rightarrow> PixelJitCache \<Rightarrow> SingleFunc \<times> PixelJitCache" where
  "GetSingleFunc P CompileSingle pixelID J =
    (let (jitted, J1) = GetSingle P CompileSingle pixelID J
     in if jitted \<noteq> None then (jitted, J1) else (GenericSingle pixelID, J1))"

text \<open>
  \<^verbatim>\<open>g_Config.bSoftwareRenderingJit\<close> is a global that \<^verbatim>\<open>GetSingle\<close> reads at every miss, so it
  can differ from one call to the next. A sequence of calls, each with its own flags and
  its own key; the cache it leaves:
\<close>

fun GetSingle_calls_any :: "compiler \<Rightarrow> (platform \<times> PixelFuncID) list \<Rightarrow> PixelJitCache \<Rightarrow> PixelJitCache" where
  "GetSingle_calls_any CompileSingle [] J = J"
| "GetSingle_calls_any CompileSingle ((P, k) # cs) J =
     GetSingle_calls_any CompileSingle cs (snd (GetSingle P CompileSingle k J))"

text \<open>
  What the cache has to keep so that a pointer it returns can be called: every routine
  in \<^verbatim>\<open>cache_\<close> is a routine in the code block, below the cursor, that was emitted for the
  key it is stored under.
\<close>

definition cache_sound :: "PixelJitCache \<Rightarrow> bool" where
  "cache_sound J \<longleftrightarrow>
    (\<forall>k r. cache_map J k = Some (Some r) \<longrightarrow>
       (\<exists>a. r = Compiled a \<and> a < GetCodePointer J \<and> emitted (block J) a = Some k))"

subsection \<open>Concrete configurations\<close>

text \<open>
  The configuration with every flag off, every enumeration at its first enumerator and
  every number zero, from which the examples below are built.
\<close>

definition cached_zero :: PixelFuncID_cached where
  "cached_zero =
    \<lparr>colorWriteMask = 0, ditherMatrix = (\<lambda>i. 0), fogColor = 0, minz = 0, maxz = 0,
     framebufStride = 0, depthbufStride = 0, logicOp = GE_LOGIC_CLEAR, stencilRef = 0,
     stencilTestMask = 0, alphaTestMask = 0, colorTestFunc = GE_COMP_NEVER,
     colorTestMask = 0, colorTestRef = 0\<rparr>"

definition PixelFuncID_zero :: PixelFuncID where
  "PixelFuncID_zero =
    \<lparr>cached = cached_zero, clearMode = False, colorTest = False, stencilTest = False,
     depthWrite = False, applyDepthRange = False, AlphaTestFunc = GE_COMP_NEVER,
     DepthTestFunc = GE_COMP_NEVER, StencilTestFunc = GE_COMP_NEVER,
     fbFormat = GE_FORMAT_565, alphaTestRef = 0, stencilTestRef = 0, alphaBlend = False,
     AlphaBlendEq = GE_BLENDMODE_MUL_AND_ADD, AlphaBlendSrc = OTHERCOLOR,
     AlphaBlendDst = OTHERCOLOR, hasAlphaTestMask = False, hasStencilTestMask = False,
     dithering = False, applyLogicOp = False, applyFog = False, applyColorWriteMask = False,
     SFail = GE_STENCILOP_KEEP, ZFail = GE_STENCILOP_KEEP, ZPass = GE_STENCILOP_KEEP,
     ColorClear = False, StencilClear = False, DepthClear = False\<rparr>"

definition id_blend_min :: PixelFuncID where
  \<comment> \<open>a \<^verbatim>\<open>MIN\<close> blend whose factors both name destination alpha\<close>
  "id_blend_min =
    PixelFuncID_zero\<lparr>alphaBlend := True, AlphaBlendEq := GE_BLENDMODE_MIN,
      AlphaBlendSrc := DSTALPHA, AlphaBlendDst := INVDSTALPHA\<rparr>"

definition id_blend_dstalpha :: PixelFuncID where
  \<comment> \<open>a weighted blend with source factor \<^verbatim>\<open>SRCALPHA\<close> and destination factor \<^verbatim>\<open>DSTALPHA\<close>\<close>
  "id_blend_dstalpha =
    PixelFuncID_zero\<lparr>alphaBlend := True, AlphaBlendEq := GE_BLENDMODE_MUL_AND_ADD,
      AlphaBlendSrc := SRCALPHA, AlphaBlendDst := DSTALPHA\<rparr>"

text \<open>
  A code generator for the examples: it emits 512 bytes for every configuration, a
  routine for the configuration that starts at the cursor, and returns the address it
  started at. A build with the generator and the flag on, a build for another
  architecture, and the first build with the flag off; two configurations that differ in
  one flag; and three states of the cache: after \<^verbatim>\<open>id_A\<close> was requested from a new cache,
  after \<^verbatim>\<open>id_B\<close> was requested next, once with the flag off and once with it on, and the
  first of these with the cursor moved to 62144 bytes before the end.
\<close>

definition CompileSingle_512 :: compiler where
  "CompileSingle_512 pixelID bc =
     (Some (Compiled (CodeBlock_GetCodePointer (fst bc))),
      (fst bc)\<lparr>offset := offset (fst bc) + 512,
               emitted := (emitted (fst bc))(CodeBlock_GetCodePointer (fst bc) \<mapsto> pixelID)\<rparr>,
      snd bc)"

definition platform_jit :: platform where
  "platform_jit = \<lparr>PPSSPP_ARCH_AMD64 = True, PPSSPP_PLATFORM_UWP = False, bSoftwareRenderingJit = True\<rparr>"

definition platform_other_arch :: platform where
  "platform_other_arch = \<lparr>PPSSPP_ARCH_AMD64 = False, PPSSPP_PLATFORM_UWP = False, bSoftwareRenderingJit = True\<rparr>"

definition platform_flag_off :: platform where
  "platform_flag_off = \<lparr>PPSSPP_ARCH_AMD64 = True, PPSSPP_PLATFORM_UWP = False, bSoftwareRenderingJit = False\<rparr>"

definition id_A :: PixelFuncID where
  "id_A = PixelFuncID_zero\<lparr>fbFormat := GE_FORMAT_8888\<rparr>"

definition id_B :: PixelFuncID where
  "id_B = PixelFuncID_zero\<lparr>fbFormat := GE_FORMAT_8888, stencilTest := True\<rparr>"

definition jit_1 :: PixelJitCache where
  "jit_1 = snd (GetSingle platform_jit CompileSingle_512 id_A (PixelJitCache_new 65536))"

definition jit_2 :: PixelJitCache where
  "jit_2 =
     GetSingle_calls_any CompileSingle_512 [(platform_flag_off, id_B), (platform_jit, id_B)] jit_1"

definition jit_full :: PixelJitCache where
  "jit_full = jit_1\<lparr>block := (block jit_1)\<lparr>offset := 200000\<rparr>\<rparr>"

text \<open>
  For the examples of the pipeline: stand-ins for the helpers of other files (the
  examples draw in format 8888 without blending, which calls none of them); buffers in
  which the pixel at \<^verbatim>\<open>(2, 1)\<close>, cell 6 at stride 4, has red \<^verbatim>\<open>0x33\<close>, green \<^verbatim>\<open>0x22\<close>, blue
  \<^verbatim>\<open>0x11\<close> and stencil 3, and depth 77; and configurations: format 8888 with every test
  off and depth write on, the same with a stencil test "equal to 5" whose fail operation
  is \<^verbatim>\<open>REPLACE\<close>, a clear with the depth range \<^verbatim>\<open>[0, 100]\<close> applied, and two colour tests.
\<close>

definition extern_id :: extern where
  "extern_id =
    \<lparr>Convert4To8 = (\<lambda>v. v), RGB565ToRGBA8888 = ucast, RGBA5551ToRGBA8888 = ucast,
     RGBA4444ToRGBA8888 = ucast, RGBA8888ToRGB565 = ucast, RGBA8888ToRGBA5551 = ucast,
     RGBA8888ToRGBA4444 = ucast, AlphaBlendingResult = (\<lambda>pixelID source dst. rgb source)\<rparr>"

definition buffers_ex :: buffers where
  "buffers_ex =
    \<lparr>fb16 = (\<lambda>i. 0), fb32 = (\<lambda>i. 0)(6 := 0x03112233), depthbuf = (\<lambda>i. 0)(6 := 77)\<rparr>"

definition id_draw :: PixelFuncID where
  "id_draw =
    PixelFuncID_zero\<lparr>cached := cached_zero\<lparr>framebufStride := 4, depthbufStride := 4\<rparr>,
      fbFormat := GE_FORMAT_8888, AlphaTestFunc := GE_COMP_ALWAYS,
      DepthTestFunc := GE_COMP_ALWAYS, depthWrite := True\<rparr>"

definition id_stencil_equal :: PixelFuncID where
  "id_stencil_equal =
    id_draw\<lparr>stencilTest := True, StencilTestFunc := GE_COMP_EQUAL, stencilTestRef := 5,
      SFail := GE_STENCILOP_REPLACE\<rparr>"

definition id_clear_range :: PixelFuncID where
  "id_clear_range =
    id_draw\<lparr>cached := cached_zero\<lparr>framebufStride := 4, depthbufStride := 4, maxz := 100\<rparr>,
      clearMode := True, applyDepthRange := True, ColorClear := True, StencilClear := True,
      DepthClear := True\<rparr>"

definition id_color_never :: PixelFuncID where
  "id_color_never = id_draw\<lparr>colorTest := True\<rparr>"

definition id_color_equal :: PixelFuncID where
  "id_color_equal =
    id_draw\<lparr>cached := cached_zero\<lparr>framebufStride := 4, depthbufStride := 4,
        colorTestFunc := GE_COMP_EQUAL, colorTestMask := 0x00FFFFFF, colorTestRef := 0x1E140A\<rparr>,
      colorTest := True\<rparr>"

section \<open>Properties\<close>

subsection \<open>Bytes\<close>

lemma unat_u8_bound: "unat (s :: u8) < 256"
  using unsigned_less [of s, where 'a = nat] by simp

lemma u8_ne_255: "(s :: u8) \<noteq> 0xFF \<Longrightarrow> unat s < 255"
  using unat_u8_bound [of s] by (simp add: word_unat_eq_iff)

lemma u8_incr: "(s :: u8) \<noteq> 0xFF \<Longrightarrow> unat (s + 1) = unat s + 1"
  using u8_ne_255 [of s] by (simp add: unat_word_ariths)

lemma u8_decr: "(s :: u8) \<noteq> 0 \<Longrightarrow> unat (s - 1) = unat s - 1"
  by (simp add: unat_minus_one)

lemma u8_incr16: "(s :: u8) < 0xF0 \<Longrightarrow> unat (s + 0x10) = unat s + 16"
  by (simp add: word_less_nat_alt unat_word_ariths)

lemma u8_decr16: "(s :: u8) \<ge> 0x10 \<Longrightarrow> unat (s - 0x10) = unat s - 16"
  by (simp add: word_le_nat_alt unat_sub)

subsection \<open>Stencil operations saturate\<close>

text \<open>
  C4. \<^verbatim>\<open>ApplyStencilOp\<close> saturates and never wraps. Format 4444: \<^verbatim>\<open>INCR\<close> adds \<^verbatim>\<open>0x10\<close> below
  \<^verbatim>\<open>0xF0\<close> and returns every stencil from \<^verbatim>\<open>0xF0\<close> on unchanged (\<^verbatim>\<open>0xF0\<close> stays \<^verbatim>\<open>0xF0\<close>);
  \<^verbatim>\<open>DECR\<close> subtracts \<^verbatim>\<open>0x10\<close> from \<^verbatim>\<open>0x10\<close> on and returns every stencil below \<^verbatim>\<open>0x10\<close>
  unchanged (\<^verbatim>\<open>0x00\<close> stays \<^verbatim>\<open>0x00\<close>). Format 5551: \<^verbatim>\<open>INCR\<close> returns \<^verbatim>\<open>0xFF\<close> and \<^verbatim>\<open>DECR\<close>
  returns 0. Format 8888: \<^verbatim>\<open>INCR\<close> of \<^verbatim>\<open>0xFF\<close> and \<^verbatim>\<open>DECR\<close> of 0 return the stencil
  unchanged, and otherwise the step is 1. \<^verbatim>\<open>INVERT\<close> is the bitwise complement for every
  format. Read as numbers, the result of \<^verbatim>\<open>INCR\<close> is never below the old stencil and the
  result of \<^verbatim>\<open>DECR\<close> never above it, for every format.
\<close>

theorem ApplyStencilOp_saturates:
  "ApplyStencilOp GE_FORMAT_4444 rep GE_STENCILOP_INCR s = (if s < 0xF0 then s + 0x10 else s)
 \<and> unat (ApplyStencilOp GE_FORMAT_4444 rep GE_STENCILOP_INCR s)
      = (if unat s < 240 then unat s + 16 else unat s)
 \<and> ApplyStencilOp GE_FORMAT_4444 rep GE_STENCILOP_DECR s = (if s < 0x10 then s else s - 0x10)
 \<and> unat (ApplyStencilOp GE_FORMAT_4444 rep GE_STENCILOP_DECR s)
      = (if unat s < 16 then unat s else unat s - 16)
 \<and> ApplyStencilOp GE_FORMAT_4444 rep GE_STENCILOP_INCR 0xF0 = 0xF0
 \<and> ApplyStencilOp GE_FORMAT_4444 rep GE_STENCILOP_DECR 0 = 0
 \<and> ApplyStencilOp GE_FORMAT_5551 rep GE_STENCILOP_INCR s = 0xFF
 \<and> ApplyStencilOp GE_FORMAT_5551 rep GE_STENCILOP_DECR s = 0
 \<and> ApplyStencilOp GE_FORMAT_8888 rep GE_STENCILOP_INCR 0xFF = 0xFF
 \<and> ApplyStencilOp GE_FORMAT_8888 rep GE_STENCILOP_DECR 0 = 0
 \<and> unat (ApplyStencilOp GE_FORMAT_8888 rep GE_STENCILOP_INCR s) = min (unat s + 1) 255
 \<and> unat (ApplyStencilOp GE_FORMAT_8888 rep GE_STENCILOP_DECR s) = unat s - 1
 \<and> ApplyStencilOp fmt rep GE_STENCILOP_INVERT s = NOT s
 \<and> unat s \<le> unat (ApplyStencilOp fmt rep GE_STENCILOP_INCR s)
 \<and> unat (ApplyStencilOp fmt rep GE_STENCILOP_DECR s) \<le> unat s"
proof -
  have i4: "unat (ApplyStencilOp GE_FORMAT_4444 rep GE_STENCILOP_INCR s)
              = (if unat s < 240 then unat s + 16 else unat s)"
    using u8_incr16 [of s] by (simp add: word_less_nat_alt)
  have d4: "unat (ApplyStencilOp GE_FORMAT_4444 rep GE_STENCILOP_DECR s)
              = (if unat s < 16 then unat s else unat s - 16)"
    using u8_decr16 [of s] by (simp add: word_le_nat_alt)
  have i8: "unat (ApplyStencilOp GE_FORMAT_8888 rep GE_STENCILOP_INCR s) = min (unat s + 1) 255"
    using u8_incr [of s] u8_ne_255 [of s] by auto
  have d8: "unat (ApplyStencilOp GE_FORMAT_8888 rep GE_STENCILOP_DECR s) = unat s - 1"
    using u8_decr [of s] by auto
  have up: "unat s \<le> unat (ApplyStencilOp fmt rep GE_STENCILOP_INCR s)"
    using u8_incr [of s] u8_incr16 [of s] unat_u8_bound [of s] by (cases fmt) auto
  have down: "unat (ApplyStencilOp fmt rep GE_STENCILOP_DECR s) \<le> unat s"
    using u8_decr [of s] u8_decr16 [of s] by (cases fmt) auto
  show ?thesis
    by (intro conjI i4 d4 i8 d8 up down) (simp_all add: not_less)
qed

subsection \<open>Blend state classification\<close>

lemma blendSrcFlags_cong:
  "AlphaBlendSrc p' = AlphaBlendSrc p \<Longrightarrow> blendSrcFlags p' = blendSrcFlags p"
  by (rule ext) (simp add: blendSrcFlags_def)

lemma blendDstFlags_cong:
  "AlphaBlendSrc p' = AlphaBlendSrc p \<Longrightarrow> AlphaBlendDst p' = AlphaBlendDst p
    \<Longrightarrow> blendDstFlags p' = blendDstFlags p"
  by (rule ext) (simp add: blendDstFlags_def split: PixelBlendFactor.splits)

lemma ComputePixelBlendState_fields:
  assumes "AlphaBlendEq p' = AlphaBlendEq p" "AlphaBlendSrc p' = AlphaBlendSrc p"
    "AlphaBlendDst p' = AlphaBlendDst p"
  shows "ComputePixelBlendState st p' = ComputePixelBlendState st p"
proof -
  have src: "blendSrcFlags p' = blendSrcFlags p"
    using assms by (intro blendSrcFlags_cong)
  have dst: "blendDstFlags p' = blendDstFlags p"
    using assms by (intro blendDstFlags_cong)
  show ?thesis
    by (simp add: ComputePixelBlendState_def assms(1) src dst Let_def)
qed

lemma ComputePixelBlendState_unweighted:
  assumes "AlphaBlendEq p \<in> {GE_BLENDMODE_MIN, GE_BLENDMODE_MAX, GE_BLENDMODE_ABSDIFF}"
    and "\<not> usesFactors st"
  shows "ComputePixelBlendState st p = st"
  using assms by (auto simp: ComputePixelBlendState_def)

text \<open>
  C9. \<^verbatim>\<open>ComputePixelBlendState\<close> is a function of the configuration: its result is
  determined by the state it starts from and by the blend equation and the two blend
  factors of the configuration, and by nothing else. For the equations \<^verbatim>\<open>MIN\<close>, \<^verbatim>\<open>MAX\<close>
  and \<^verbatim>\<open>ABSDIFF\<close>, whatever the two factors are, a state whose \<^verbatim>\<open>usesFactors\<close> is off comes
  back unchanged: \<^verbatim>\<open>usesFactors\<close> stays off and no flag is set; in particular, from the
  state with nothing flagged, none of \<^verbatim>\<open>usesFactors\<close>, \<^verbatim>\<open>usesDstAlpha\<close>, \<^verbatim>\<open>dstColorAsFactor\<close>,
  \<^verbatim>\<open>srcColorAsFactor\<close>, \<^verbatim>\<open>dstFactorIsInverse\<close> is set.
\<close>

theorem ComputePixelBlendState_reduction:
  "(AlphaBlendEq p' = AlphaBlendEq p \<and> AlphaBlendSrc p' = AlphaBlendSrc p
      \<and> AlphaBlendDst p' = AlphaBlendDst p
      \<longrightarrow> ComputePixelBlendState st p' = ComputePixelBlendState st p)
 \<and> (AlphaBlendEq p \<in> {GE_BLENDMODE_MIN, GE_BLENDMODE_MAX, GE_BLENDMODE_ABSDIFF}
      \<and> \<not> usesFactors st
      \<longrightarrow> ComputePixelBlendState st p = st)
 \<and> (AlphaBlendEq p \<in> {GE_BLENDMODE_MIN, GE_BLENDMODE_MAX, GE_BLENDMODE_ABSDIFF}
      \<longrightarrow> \<not> usesFactors (ComputePixelBlendState PixelBlendState_new p)
        \<and> \<not> usesDstAlpha (ComputePixelBlendState PixelBlendState_new p)
        \<and> \<not> dstColorAsFactor (ComputePixelBlendState PixelBlendState_new p)
        \<and> \<not> srcColorAsFactor (ComputePixelBlendState PixelBlendState_new p)
        \<and> \<not> dstFactorIsInverse (ComputePixelBlendState PixelBlendState_new p))"
proof (intro conjI impI)
  assume "AlphaBlendEq p' = AlphaBlendEq p \<and> AlphaBlendSrc p' = AlphaBlendSrc p
      \<and> AlphaBlendDst p' = AlphaBlendDst p"
  then show "ComputePixelBlendState st p' = ComputePixelBlendState st p"
    by (intro ComputePixelBlendState_fields) simp_all
next
  assume "AlphaBlendEq p \<in> {GE_BLENDMODE_MIN, GE_BLENDMODE_MAX, GE_BLENDMODE_ABSDIFF}
      \<and> \<not> usesFactors st"
  then show "ComputePixelBlendState st p = st"
    by (intro ComputePixelBlendState_unweighted) simp_all
next
  assume a: "AlphaBlendEq p \<in> {GE_BLENDMODE_MIN, GE_BLENDMODE_MAX, GE_BLENDMODE_ABSDIFF}"
  have new: "ComputePixelBlendState PixelBlendState_new p = PixelBlendState_new"
    by (rule ComputePixelBlendState_unweighted [OF a]) (simp add: PixelBlendState_new_def)
  show "\<not> usesFactors (ComputePixelBlendState PixelBlendState_new p)"
    and "\<not> usesDstAlpha (ComputePixelBlendState PixelBlendState_new p)"
    and "\<not> dstColorAsFactor (ComputePixelBlendState PixelBlendState_new p)"
    and "\<not> srcColorAsFactor (ComputePixelBlendState PixelBlendState_new p)"
    and "\<not> dstFactorIsInverse (ComputePixelBlendState PixelBlendState_new p)"
    unfolding new by (simp_all add: PixelBlendState_new_def)
qed

theorem ComputePixelBlendState_reduction_witness:
  "AlphaBlendEq id_blend_min = GE_BLENDMODE_MIN
 \<and> AlphaBlendSrc id_blend_min = DSTALPHA
 \<and> AlphaBlendDst id_blend_min = INVDSTALPHA
 \<and> \<not> usesFactors PixelBlendState_new
 \<and> ComputePixelBlendState PixelBlendState_new id_blend_min = PixelBlendState_new
 \<and> ComputePixelBlendState PixelBlendState_new
      (id_blend_min\<lparr>fbFormat := GE_FORMAT_8888, dithering := True\<rparr>)
    = ComputePixelBlendState PixelBlendState_new id_blend_min
 \<and> \<not> usesDstAlpha (ComputePixelBlendState PixelBlendState_new id_blend_min)
 \<and> \<not> dstColorAsFactor (ComputePixelBlendState PixelBlendState_new id_blend_min)"
  using ComputePixelBlendState_reduction
    [of "id_blend_min\<lparr>fbFormat := GE_FORMAT_8888, dithering := True\<rparr>" id_blend_min
        PixelBlendState_new]
  by (simp add: id_blend_min_def PixelFuncID_zero_def PixelBlendState_new_def)

text \<open>
  C10. Whenever \<^verbatim>\<open>usesDstAlpha\<close> is set in the state that \<^verbatim>\<open>ComputePixelBlendState\<close>
  produces, \<^verbatim>\<open>dstColorAsFactor\<close> is set too, for every configuration. The function
  keeps the implication for every state it is given that has it, and the state with
  nothing flagged has it.
\<close>

theorem ComputePixelBlendState_usesDstAlpha:
  "(usesDstAlpha (ComputePixelBlendState PixelBlendState_new p)
      \<longrightarrow> dstColorAsFactor (ComputePixelBlendState PixelBlendState_new p))
 \<and> ((usesDstAlpha st \<longrightarrow> dstColorAsFactor st)
      \<longrightarrow> usesDstAlpha (ComputePixelBlendState st p)
      \<longrightarrow> dstColorAsFactor (ComputePixelBlendState st p))"
  by (auto simp: ComputePixelBlendState_def PixelBlendState_new_def Let_def
      split: GEBlendMode.splits)

theorem ComputePixelBlendState_usesDstAlpha_witness:
  "usesDstAlpha (ComputePixelBlendState PixelBlendState_new id_blend_dstalpha)
 \<and> dstColorAsFactor (ComputePixelBlendState PixelBlendState_new id_blend_dstalpha)"
  using ComputePixelBlendState_usesDstAlpha [of id_blend_dstalpha PixelBlendState_new]
  by (simp add: ComputePixelBlendState_def blendSrcFlags_def blendDstFlags_def
      id_blend_dstalpha_def PixelFuncID_zero_def PixelBlendState_new_def)

subsection \<open>The routine cache\<close>

lemma Clear_simps:
  "cache_map (Clear J) = Map.empty" "addresses_map (Clear J) = Map.empty"
  "offset (block (Clear J)) = 0" "events (Clear J) = events J @ [Ev_Clear]"
  "region (block (Clear J)) = region (block J)" "region_size (block (Clear J)) = region_size (block J)"
  by (simp_all add: Clear_def CodeBlock_Clear_def)

lemma compileAndStore_cache:
  "cache_map (snd (compileAndStore CS k J)) = (cache_map J)(k \<mapsto> fst (compileAndStore CS k J))"
  by (simp add: compileAndStore_def Let_def split: prod.splits)

lemma compileAndStore_addresses:
  "addresses_map (snd (compileAndStore CS k J)) = (addresses_map J)(k \<mapsto> GetCodePointer J)"
  by (simp add: compileAndStore_def Let_def split: prod.splits)

lemma compileAndStore_events:
  "events (snd (compileAndStore CS k J)) = events J @ [Ev_CompileSingle k]"
  by (simp add: compileAndStore_def Let_def split: prod.splits)

lemma GetSingle_cases:
  obtains (hit) f where "cache_map J k = Some f" "GetSingle P CS k J = (f, J)"
  | (off) "cache_map J k = None" "\<not> jitEnabled P" "GetSpaceLeft J \<ge> 65536" "GetSingle P CS k J = (None, J)"
  | (off_reset) "cache_map J k = None" "\<not> jitEnabled P" "GetSpaceLeft J < 65536" "GetSingle P CS k J = (None, Clear J)"
  | (miss) "cache_map J k = None" "jitEnabled P" "GetSpaceLeft J \<ge> 65536" "GetSingle P CS k J = compileAndStore CS k J"
  | (miss_reset) "cache_map J k = None" "jitEnabled P" "GetSpaceLeft J < 65536" "GetSingle P CS k J = compileAndStore CS k (Clear J)"
  by (cases "cache_map J k"; cases "jitEnabled P"; cases "GetSpaceLeft J < 65536") (auto simp: GetSingle_def)








lemma GetSingle_off_miss:
  "\<not> jitEnabled P \<Longrightarrow> cache_map J k = None \<Longrightarrow> fst (GetSingle P CS k J) = None"
  by (simp add: GetSingle_def Let_def)




lemma GetSingle_routine_cached:
  assumes "fst (GetSingle P CS k J) \<noteq> None"
  shows "cache_map (snd (GetSingle P CS k J)) k = Some (fst (GetSingle P CS k J))"
proof (rule GetSingle_cases [where J = J and k = k and P = P and CS = CS])
qed (use assms in \<open>auto simp: compileAndStore_cache\<close>)




text \<open>
  The cache is sound when it is built, \<^verbatim>\<open>Clear\<close> makes it sound by emptying it, and a
  compilation keeps it sound when the generator is as the spec has it: the new entry is
  the routine just emitted for the key, and the older entries lie below the old cursor,
  where the generator changes nothing.
\<close>

lemma cache_sound_new: "cache_sound (PixelJitCache_new addr)"
  by (simp add: cache_sound_def PixelJitCache_new_def)

lemma cache_sound_Clear: "cache_sound (Clear J)"
  by (simp add: cache_sound_def Clear_simps)

lemma CompileSingle_specD:
  assumes "CompileSingle_spec CS" and "CS k (b, c) = (func, b', c')"
  shows "region b' = region b" "offset b \<le> offset b'"
    "a < region b + offset b \<Longrightarrow> emitted b' a = emitted b a"
    "func = Some r \<Longrightarrow> \<exists>a. r = Compiled a \<and> a < region b' + offset b' \<and> emitted b' a = Some k"
  using assms(1) [unfolded CompileSingle_spec_def, THEN spec [of _ k], THEN spec [of _ b], THEN spec [of _ c]]
    assms(2)
  by auto

lemma cache_sound_compileAndStore:
  assumes gen: "CompileSingle_spec CS" and inv: "cache_sound J"
  shows "cache_sound (snd (compileAndStore CS k J))"
proof -
  obtain func b' c' where cs: "CS k (block J, const_ptrs J) = (func, b', c')"
    by (cases "CS k (block J, const_ptrs J)")
  note D = CompileSingle_specD [OF gen cs]
  have J': "snd (compileAndStore CS k J) =
      J\<lparr>addresses_map := (addresses_map J)(k \<mapsto> GetCodePointer J), block := b', const_ptrs := c',
        events := events J @ [Ev_CompileSingle k], cache_map := (cache_map J)(k \<mapsto> func)\<rparr>"
    by (simp add: compileAndStore_def Let_def cs)
  show ?thesis
    unfolding cache_sound_def
  proof (intro allI impI)
    fix k' r
    assume h: "cache_map (snd (compileAndStore CS k J)) k' = Some (Some r)"
    show "\<exists>a. r = Compiled a \<and> a < GetCodePointer (snd (compileAndStore CS k J))
            \<and> emitted (block (snd (compileAndStore CS k J))) a = Some k'"
    proof (cases "k' = k")
      case True
      with h have "func = Some r" by (simp add: J')
      from D(4) [OF this] show ?thesis
        by (simp add: J' True GetCodePointer_def CodeBlock_GetCodePointer_def)
    next
      case False
      with h have "cache_map J k' = Some (Some r)" by (simp add: J')
      with inv obtain a where a: "r = Compiled a" "a < region (block J) + offset (block J)"
        "emitted (block J) a = Some k'"
        by (auto simp: cache_sound_def GetCodePointer_def CodeBlock_GetCodePointer_def)
      have "emitted b' a = Some k'" using D(3) [OF a(2)] a(3) by simp
      moreover have "a < region b' + offset b'" using a(2) D(1,2) by simp
      ultimately show ?thesis
        using a(1) by (simp add: J' GetCodePointer_def CodeBlock_GetCodePointer_def)
    qed
  qed
qed

lemma cache_sound_GetSingle:
  assumes "CompileSingle_spec CS" and "cache_sound J"
  shows "cache_sound (snd (GetSingle P CS k J))"
proof (rule GetSingle_cases [where J = J and k = k and P = P and CS = CS])
qed (use assms in \<open>auto simp: cache_sound_Clear cache_sound_compileAndStore\<close>)

lemma cache_sound_calls:
  assumes "CompileSingle_spec CS" and "cache_sound J"
  shows "cache_sound (GetSingle_calls_any CS cs J)"
  using assms(2)
proof (induction cs arbitrary: J)
  case Nil
  then show ?case by simp
next
  case (Cons c cs)
  obtain P k where c: "c = (P, k)" by (cases c)
  show ?case
    using Cons.IH [OF cache_sound_GetSingle [OF assms(1) Cons.prems, of P k]]
    by (simp add: c)
qed


lemma CompileSingle_512_spec: "CompileSingle_spec CompileSingle_512"
  by (simp add: CompileSingle_spec_def CompileSingle_512_def CodeBlock_GetCodePointer_def)


lemma id_A_B: "id_A \<noteq> id_B" "id_B \<noteq> id_A"
  by (simp_all add: id_A_def id_B_def PixelFuncID_zero_def)

lemmas jit_eval = GetSingle_def compileAndStore_def CompileSingle_512_def PixelJitCache_new_def
  GetSpaceLeft_def CodeBlock_GetSpaceLeft_def GetCodePointer_def CodeBlock_GetCodePointer_def
  Clear_def CodeBlock_Clear_def jitEnabled_def platform_jit_def platform_other_arch_def
  platform_flag_off_def Let_def id_A_B jit_1_def jit_2_def jit_full_def




text \<open>
  C7. A call that misses while fewer than 65536 bytes are left is the same as clearing
  and then compiling: \<^verbatim>\<open>Clear\<close> runs first, it puts the cursor back at the start of the
  region and empties both maps, and only then is the key compiled (when the build
  compiles at all). After the call no other key has a routine or an address, and the
  key itself was compiled anew at the start of the region. No call ever removes one
  entry alone: either every entry the cache had is still there, or all of them but the
  requested key's are gone.
\<close>

theorem GetSingle_reset:
  "(cache_map J k = None \<and> GetSpaceLeft J < 65536 \<longrightarrow>
       GetSingle P CS k J = (if jitEnabled P then compileAndStore CS k (Clear J) else (None, Clear J))
     \<and> offset (block (Clear J)) = 0
     \<and> GetCodePointer (Clear J) = region (block J)
     \<and> cache_map (Clear J) = Map.empty
     \<and> addresses_map (Clear J) = Map.empty
     \<and> (\<forall>k'. k' \<noteq> k \<longrightarrow> cache_map (snd (GetSingle P CS k J)) k' = None
                      \<and> addresses_map (snd (GetSingle P CS k J)) k' = None)
     \<and> (jitEnabled P \<longrightarrow>
           events (snd (GetSingle P CS k J)) = events J @ [Ev_Clear, Ev_CompileSingle k]
         \<and> addresses_map (snd (GetSingle P CS k J)) k = Some (region (block J))))
 \<and> ((\<forall>k'. cache_map J k' \<noteq> None \<longrightarrow> cache_map (snd (GetSingle P CS k J)) k' = cache_map J k')
    \<or> (\<forall>k'. k' \<noteq> k \<longrightarrow> cache_map (snd (GetSingle P CS k J)) k' = None))"
proof (intro conjI impI)
  assume a: "cache_map J k = None \<and> GetSpaceLeft J < 65536"
  show g: "GetSingle P CS k J = (if jitEnabled P then compileAndStore CS k (Clear J) else (None, Clear J))"
    using a by (simp add: GetSingle_def)
  show "offset (block (Clear J)) = 0" "cache_map (Clear J) = Map.empty"
    "addresses_map (Clear J) = Map.empty"
    by (simp_all add: Clear_simps)
  show "GetCodePointer (Clear J) = region (block J)"
    by (simp add: GetCodePointer_def CodeBlock_GetCodePointer_def Clear_simps)
  show "\<forall>k'. k' \<noteq> k \<longrightarrow> cache_map (snd (GetSingle P CS k J)) k' = None
                      \<and> addresses_map (snd (GetSingle P CS k J)) k' = None"
    unfolding g by (simp add: compileAndStore_cache compileAndStore_addresses Clear_simps)
  assume "jitEnabled P"
  then show "events (snd (GetSingle P CS k J)) = events J @ [Ev_Clear, Ev_CompileSingle k]"
    "addresses_map (snd (GetSingle P CS k J)) k = Some (region (block J))"
    unfolding g
    by (simp_all add: compileAndStore_events compileAndStore_addresses Clear_simps
        GetCodePointer_def CodeBlock_GetCodePointer_def)
next
  show "(\<forall>k'. cache_map J k' \<noteq> None \<longrightarrow> cache_map (snd (GetSingle P CS k J)) k' = cache_map J k')
    \<or> (\<forall>k'. k' \<noteq> k \<longrightarrow> cache_map (snd (GetSingle P CS k J)) k' = None)"
    by (rule GetSingle_cases [where J = J and k = k and P = P and CS = CS])
      (auto simp: compileAndStore_cache Clear_simps)
qed

theorem GetSingle_reset_witness:
  "cache_map jit_full id_A = Some (Some (Compiled 65536))
 \<and> addresses_map jit_full id_A = Some 65536
 \<and> cache_map jit_full id_B = None
 \<and> GetSpaceLeft jit_full = 62144
 \<and> fst (GetSingle platform_jit CompileSingle_512 id_B jit_full) = Some (Compiled 65536)
 \<and> cache_map (snd (GetSingle platform_jit CompileSingle_512 id_B jit_full)) id_A = None
 \<and> addresses_map (snd (GetSingle platform_jit CompileSingle_512 id_B jit_full)) id_A = None
 \<and> addresses_map (snd (GetSingle platform_jit CompileSingle_512 id_B jit_full)) id_B = Some 65536
 \<and> events (snd (GetSingle platform_jit CompileSingle_512 id_B jit_full))
     = [Ev_CompileSingle id_A, Ev_Clear, Ev_CompileSingle id_B]"
  using GetSingle_reset [of jit_full id_B platform_jit CompileSingle_512]
  by (simp add: jit_eval)

text \<open>
  C8. Without the code generator (another architecture, the UWP platform, or the flag
  off) a key that is not cached gets \<^verbatim>\<open>nullptr\<close> from \<^verbatim>\<open>GetSingle\<close>. Whenever \<^verbatim>\<open>GetSingle\<close>
  returns \<^verbatim>\<open>nullptr\<close>, \<^verbatim>\<open>GetSingleFunc\<close> returns \<^verbatim>\<open>GenericSingle\<close> of the key, which for each
  of the four framebuffer formats is the address of \<^verbatim>\<open>DrawSinglePixel\<close> instantiated at
  the key's clear-mode flag and format, not \<^verbatim>\<open>nullptr\<close>; so \<^verbatim>\<open>GetSingleFunc\<close> never
  returns \<^verbatim>\<open>nullptr\<close> for these formats.
\<close>

theorem GetSingleFunc_fallback:
  "(\<not> jitEnabled P \<and> cache_map J k = None \<longrightarrow> fst (GetSingle P CS k J) = None)
 \<and> (fbFormat k \<noteq> GE_FORMAT_other \<longrightarrow>
       GenericSingle k = Some (DrawSinglePixel_ptr (clearMode k) (fbFormat k)))
 \<and> (fst (GetSingle P CS k J) = None \<and> fbFormat k \<noteq> GE_FORMAT_other \<longrightarrow>
       fst (GetSingleFunc P CS k J) = Some (DrawSinglePixel_ptr (clearMode k) (fbFormat k)))
 \<and> (fbFormat k \<noteq> GE_FORMAT_other \<longrightarrow> fst (GetSingleFunc P CS k J) \<noteq> None)"
proof -
  have gen: "GenericSingle k = Some (DrawSinglePixel_ptr (clearMode k) (fbFormat k))"
    if "fbFormat k \<noteq> GE_FORMAT_other"
    using that by (cases "fbFormat k"; cases "clearMode k") (simp_all add: GenericSingle_def)
  have fb: "fst (GetSingleFunc P CS k J) =
      (if fst (GetSingle P CS k J) \<noteq> None then fst (GetSingle P CS k J) else GenericSingle k)"
    by (simp add: GetSingleFunc_def split: prod.splits)
  show ?thesis
    using gen by (auto simp: fb GetSingle_off_miss)
qed

theorem GetSingleFunc_fallback_witness:
  "\<not> jitEnabled platform_other_arch
 \<and> cache_map (PixelJitCache_new 65536) id_A = None
 \<and> fst (GetSingle platform_other_arch CompileSingle_512 id_A (PixelJitCache_new 65536)) = None
 \<and> fbFormat id_A = GE_FORMAT_8888
 \<and> fst (GetSingleFunc platform_other_arch CompileSingle_512 id_A (PixelJitCache_new 65536))
     = Some (DrawSinglePixel_ptr False GE_FORMAT_8888)"
  using GetSingleFunc_fallback [of platform_other_arch "PixelJitCache_new 65536" id_A CompileSingle_512]
  by (simp add: jit_eval id_A_def PixelFuncID_zero_def)

subsection \<open>The generic pipeline\<close>

lemmas pixel_eval =
  DrawSinglePixel_def writePixel_def testedColor_def applyFogBlend_def ditherOffset_def
  AlphaTestPassed_def ColorTestPassed_def StencilTestPassed_def DepthTestPassed_def
  GetPixelStencil_def SetPixelStencil_def GetPixelDepth_def SetPixelDepth_def
  GetPixelColor_def SetPixelColor_def fb_Get16_def fb_Set16_def fb_Get32_def fb_Set32_def
  depthbuf_Get16_def depthbuf_Set16_def Vec4_Clamp_def clamp_int_def clamp_u8_def rgb_def
  Vec3_ToRGB_def Vec4_ToRGBA_def Vec3_FromRGB_def Vec4_FromRGBA_def Vec3_add_all_def
  Vec4_add_all_def Let_def
  extern_id_def buffers_ex_def id_draw_def id_stencil_equal_def id_clear_range_def
  id_color_never_def id_color_equal_def PixelFuncID_zero_def cached_zero_def


lemma ColorTestPassed_iff:
  "ColorTestPassed pixelID color \<longleftrightarrow>
     (case colorTestFunc (cached pixelID) of
        GE_COMP_NEVER \<Rightarrow> False
      | GE_COMP_EQUAL \<Rightarrow>
          Vec3_ToRGB color AND colorTestMask (cached pixelID) = colorTestRef (cached pixelID)
      | GE_COMP_NOTEQUAL \<Rightarrow>
          Vec3_ToRGB color AND colorTestMask (cached pixelID) \<noteq> colorTestRef (cached pixelID)
      | _ \<Rightarrow> True)"
  by (simp add: ColorTestPassed_def Let_def split: GEComparison.splits)

lemma m24: "(0x00FFFFFF :: u32) = mask 24" by (simp add: mask_eq_exp_minus_1)
lemma m12: "(0x0FFF :: u32) = mask 12" by (simp add: mask_eq_exp_minus_1)
lemma m12': "(0x0FFF :: u16) = mask 12" by (simp add: mask_eq_exp_minus_1)
lemma m15: "(0x7FFF :: u16) = mask 15" by (simp add: mask_eq_exp_minus_1)

lemma bit_0x8000_int: "bit (0x8000 :: int) n \<longleftrightarrow> n = 15"
proof -
  have "(0x8000 :: int) = 2 ^ 15" by simp
  then show ?thesis by (simp only: bit_exp_iff) simp
qed

lemma bit_0x80_int: "bit (0x80 :: int) n \<longleftrightarrow> n = 7"
proof -
  have "(0x80 :: int) = 2 ^ 7" by simp
  then show ?thesis by (simp only: bit_exp_iff) simp
qed

lemma bit_0xF000_int: "bit (0xF000 :: int) n \<longleftrightarrow> 12 \<le> n \<and> n < 16"
proof -
  have "(0xF000 :: int) = push_bit 12 (mask 4)" by (simp add: mask_eq_exp_minus_1)
  then show ?thesis by (simp only: bit_simps) auto
qed

lemma bit_0xFF000000_int: "bit (0xFF000000 :: int) n \<longleftrightarrow> 24 \<le> n \<and> n < 32"
proof -
  have "(0xFF000000 :: int) = push_bit 24 (mask 8)" by (simp add: mask_eq_exp_minus_1)
  then show ?thesis by (simp only: bit_simps) auto
qed

lemma unmasked_8888:
  assumes "(twm :: u32) AND 0xFF000000 = 0" and "24 \<le> n" and "n < 32"
  shows "\<not> bit twm n"
proof
  assume "bit twm n"
  with assms(2,3) have "bit (twm AND 0xFF000000) n"
    by (simp add: bit_simps bit_0xFF000000_int)
  with assms(1) show False by simp
qed

lemma unmasked_4444:
  assumes "(twm :: u32) AND 0xF000 = 0" and "12 \<le> n" and "n < 16"
  shows "\<not> bit twm n"
proof
  assume "bit twm n"
  with assms(2,3) have "bit (twm AND 0xF000) n"
    by (simp add: bit_simps bit_0xF000_int)
  with assms(1) show False by simp
qed

lemma set8888_unmasked:
  assumes "(twm :: u32) AND 0xFF000000 = 0"
  shows "ucast (drop_bit 24 ((p AND (twm OR 0x00FFFFFF))
           OR (push_bit 24 (ucast (v :: u8)) AND NOT (twm OR 0x00FFFFFF)))) = v"
  unfolding m24
  by (rule bit_eqI) (use unmasked_8888 [OF assms] in \<open>auto simp: bit_simps dest: bit_imp_le_length\<close>)

lemma set4444_unmasked:
  assumes "(twm :: u32) AND 0xF000 = 0"
  shows "drop_bit 12 (((p :: u16) AND ucast (twm OR 0x0FFF))
           OR (push_bit 8 (ucast (v :: u8)) AND NOT (ucast (twm OR 0x0FFF))))
         = ucast (drop_bit 4 v)"
  unfolding m12
  by (rule bit_eqI) (use unmasked_4444 [OF assms] in \<open>auto simp: bit_simps dest: bit_imp_le_length\<close>)

lemma set5551_unmasked:
  "bit ((((p :: u16) AND NOT 0x8000) OR push_bit 8 (ucast ((v :: u8) AND 0x80)))) 15 \<longleftrightarrow> bit v 7"
  by (auto simp: bit_simps bit_0x8000_int bit_0x80_int)

lemma keep32:
  "((p AND (m OR 0x00FFFFFF)) OR (push_bit 24 q AND NOT (m OR 0x00FFFFFF))) AND 0x00FFFFFF
     = p AND (0x00FFFFFF :: u32)"
  unfolding m24 by (rule bit_eqI) (auto simp: bit_simps)

lemma keep4444:
  "((p AND ucast (m OR (0x0FFF :: u32))) OR (push_bit 8 q AND NOT (ucast (m OR (0x0FFF :: u32)))))
     AND 0x0FFF = p AND (0x0FFF :: u16)"
  unfolding m12 m12' by (rule bit_eqI) (auto simp: bit_simps)

lemma keep5551:
  "((p AND NOT 0x8000) OR push_bit 8 (ucast (v AND (0x80 :: u8)))) AND 0x7FFF = p AND (0x7FFF :: u16)"
  unfolding m15 by (rule bit_eqI) (auto simp: bit_simps bit_0x8000_int bit_0x80_int)

lemma SetPixelStencil_depthbuf: "depthbuf (SetPixelStencil fmt stride twm x y v s) = depthbuf s"
  by (simp add: SetPixelStencil_def fb_Set16_def fb_Set32_def Let_def)

lemma SetPixelStencil_other:
  "j \<noteq> x + y * stride \<Longrightarrow>
     fb16 (SetPixelStencil fmt stride twm x y v s) j = fb16 s j
   \<and> fb32 (SetPixelStencil fmt stride twm x y v s) j = fb32 s j"
  by (simp add: SetPixelStencil_def fb_Set16_def fb_Set32_def Let_def)

lemma SetPixelStencil_5551:
  "fb16 (SetPixelStencil GE_FORMAT_5551 stride twm x y v s) (x + y * stride) =
     (if twm AND 0x8000 = 0
      then (fb16 s (x + y * stride) AND NOT 0x8000) OR push_bit 8 (ucast (v AND 0x80))
      else fb16 s (x + y * stride))"
  by (simp add: SetPixelStencil_def fb_Set16_def fb_Get16_def Let_def)

lemma SetPixelStencil_4444:
  "fb16 (SetPixelStencil GE_FORMAT_4444 stride twm x y v s) (x + y * stride) =
     (fb16 s (x + y * stride) AND ucast (twm OR 0x0FFF))
       OR (push_bit 8 (ucast v) AND NOT (ucast (twm OR 0x0FFF)))"
  by (simp add: SetPixelStencil_def fb_Set16_def fb_Get16_def Let_def)

lemma SetPixelStencil_32:
  assumes "fmt \<noteq> GE_FORMAT_565" "fmt \<noteq> GE_FORMAT_5551" "fmt \<noteq> GE_FORMAT_4444"
  shows "fb32 (SetPixelStencil fmt stride twm x y v s) (x + y * stride) =
     (fb32 s (x + y * stride) AND (twm OR 0x00FFFFFF))
       OR (push_bit 24 (ucast v) AND NOT (twm OR 0x00FFFFFF))"
  using assms by (simp add: SetPixelStencil_def fb_Set32_def fb_Get32_def Let_def)

lemma SetPixelStencil_fb32_16bit:
  assumes "fmt = GE_FORMAT_565 \<or> fmt = GE_FORMAT_5551 \<or> fmt = GE_FORMAT_4444"
  shows "fb32 (SetPixelStencil fmt stride twm x y v s) = fb32 s"
  using assms by (auto simp: SetPixelStencil_def fb_Set16_def Let_def)

lemma SetPixelStencil_color32:
  "fb32 (SetPixelStencil fmt stride twm x y v s) (x + y * stride) AND 0x00FFFFFF
     = fb32 s (x + y * stride) AND 0x00FFFFFF"
proof (cases "fmt = GE_FORMAT_565 \<or> fmt = GE_FORMAT_5551 \<or> fmt = GE_FORMAT_4444")
  case True
  then show ?thesis by (simp only: SetPixelStencil_fb32_16bit)
next
  case False
  then have "fmt \<noteq> GE_FORMAT_565" "fmt \<noteq> GE_FORMAT_5551" "fmt \<noteq> GE_FORMAT_4444"
    by simp_all
  note eq = SetPixelStencil_32 [OF this]
  show ?thesis unfolding eq by (rule keep32)
qed

lemma SetPixelStencil_fb16_other_formats:
  "fmt \<noteq> GE_FORMAT_5551 \<Longrightarrow> fmt \<noteq> GE_FORMAT_4444 \<Longrightarrow>
     fb16 (SetPixelStencil fmt stride twm x y v s) = fb16 s"
  by (simp add: SetPixelStencil_def fb_Set32_def Let_def)

lemma SetPixelStencil_color16:
  "fb16 (SetPixelStencil fmt stride twm x y v s) (x + y * stride)
       AND (case fmt of GE_FORMAT_5551 \<Rightarrow> 0x7FFF | GE_FORMAT_4444 \<Rightarrow> 0x0FFF | _ \<Rightarrow> 0xFFFF)
     = fb16 s (x + y * stride)
       AND (case fmt of GE_FORMAT_5551 \<Rightarrow> 0x7FFF | GE_FORMAT_4444 \<Rightarrow> 0x0FFF | _ \<Rightarrow> 0xFFFF)"
proof (cases fmt)
  case GE_FORMAT_5551
  show ?thesis
    unfolding GE_FORMAT_5551 SetPixelStencil_5551
    by (simp only: GEBufferFormat.case keep5551 if_distrib [of "\<lambda>w. w AND 0x7FFF"] if_cancel)
next
  case GE_FORMAT_4444
  show ?thesis
    unfolding GE_FORMAT_4444 SetPixelStencil_4444
    by (simp only: GEBufferFormat.case keep4444)
qed (simp_all add: SetPixelStencil_fb16_other_formats)

lemma SetPixelStencil_8888_unmasked:
  assumes "twm AND 0xFF000000 = 0"
  shows "ucast (drop_bit 24
           (fb32 (SetPixelStencil GE_FORMAT_8888 stride twm x y v s) (x + y * stride))) = v"
proof -
  have eq: "fb32 (SetPixelStencil GE_FORMAT_8888 stride twm x y v s) (x + y * stride) =
     (fb32 s (x + y * stride) AND (twm OR 0x00FFFFFF))
       OR (push_bit 24 (ucast v) AND NOT (twm OR 0x00FFFFFF))"
    by (rule SetPixelStencil_32) simp_all
  show ?thesis unfolding eq by (rule set8888_unmasked [OF assms])
qed

lemma SetPixelStencil_4444_unmasked:
  assumes "twm AND 0xF000 = 0"
  shows "drop_bit 12 (fb16 (SetPixelStencil GE_FORMAT_4444 stride twm x y v s) (x + y * stride))
           = ucast (drop_bit 4 v)"
  unfolding SetPixelStencil_4444 by (rule set4444_unmasked [OF assms])

lemma SetPixelStencil_5551_unmasked:
  assumes "twm AND 0x8000 = 0"
  shows "bit (fb16 (SetPixelStencil GE_FORMAT_5551 stride twm x y v s) (x + y * stride)) 15
           \<longleftrightarrow> bit v 7"
  unfolding SetPixelStencil_5551 using assms by (simp only: if_True set5551_unmasked refl)

lemma DrawSinglePixel_clear_paths:
  fixes E :: extern and fmt :: GEBufferFormat and x y z fog :: int
    and c :: Vec4 and pixelID :: PixelFuncID and s :: buffers
  defines "D \<equiv> DrawSinglePixel E True fmt x y z fog c pixelID s"
    and "R \<equiv> applyDepthRange pixelID \<and> (z < minz (cached pixelID) \<or> z > maxz (cached pixelID))"
  shows "(R \<and> fst D = Exit_DepthRange \<and> snd D = s) \<or> (\<not> R \<and> fst D = Exit_Written)"
proof (cases R)
  case True
  have "D = (Exit_DepthRange, s)"
    unfolding D_def
    by (simp add: DrawSinglePixel_def Let_def True [unfolded R_def] split del: if_split)
  with True show ?thesis by simp
next
  case False
  have "fst D = Exit_Written"
    unfolding D_def
    by (simp add: DrawSinglePixel_def Let_def False [unfolded R_def] split del: if_split)
  with False show ?thesis by simp
qed

lemma DrawSinglePixel_draw_paths:
  fixes E :: extern and fmt :: GEBufferFormat and x y z fog :: int
    and c :: Vec4 and pixelID :: PixelFuncID and s :: buffers
  defines "D \<equiv> DrawSinglePixel E False fmt x y z fog c pixelID s"
    and "R \<equiv> applyDepthRange pixelID \<and> (z < minz (cached pixelID) \<or> z > maxz (cached pixelID))"
    and "A \<equiv> AlphaTestFunc pixelID \<noteq> GE_COMP_ALWAYS
               \<and> \<not> AlphaTestPassed pixelID (a4 (Vec4_Clamp c 0 255))"
    and "C \<equiv> colorTest pixelID
               \<and> \<not> ColorTestPassed pixelID (rgb (testedColor False pixelID fog c))"
    and "old \<equiv> GetPixelStencil E fmt (framebufStride (cached pixelID)) x y s"
    and "Z \<equiv> DepthTestFunc pixelID \<noteq> GE_COMP_ALWAYS
               \<and> \<not> DepthTestPassed (DepthTestFunc pixelID) x y (depthbufStride (cached pixelID))
                     (word_of_int z) s"
    and "rep \<equiv> (if hasStencilTestMask pixelID then stencilRef (cached pixelID)
                   else stencilTestRef pixelID)"
    and "twm \<equiv> (if applyColorWriteMask pixelID then colorWriteMask (cached pixelID) else 0)"
  shows "(R \<and> fst D = Exit_DepthRange \<and> snd D = s)
       \<or> (\<not> R \<and> A \<and> fst D = Exit_AlphaTest \<and> snd D = s)
       \<or> (\<not> R \<and> \<not> A \<and> C \<and> fst D = Exit_ColorTest \<and> snd D = s)
       \<or> (\<not> R \<and> \<not> A \<and> \<not> C \<and> stencilTest pixelID
            \<and> \<not> StencilTestPassed pixelID old \<and> fst D = Exit_StencilFail
            \<and> snd D = SetPixelStencil fmt (framebufStride (cached pixelID)) twm x y
                        (ApplyStencilOp fmt rep (SFail pixelID) old) s)
       \<or> (\<not> R \<and> \<not> A \<and> \<not> C \<and> stencilTest pixelID
            \<and> StencilTestPassed pixelID old \<and> Z \<and> fst D = Exit_ZFail
            \<and> snd D = SetPixelStencil fmt (framebufStride (cached pixelID)) twm x y
                        (ApplyStencilOp fmt rep (ZFail pixelID) old) s)
       \<or> (\<not> R \<and> \<not> A \<and> \<not> C \<and> stencilTest pixelID
            \<and> StencilTestPassed pixelID old \<and> \<not> Z \<and> fst D = Exit_Written)
       \<or> (\<not> R \<and> \<not> A \<and> \<not> C \<and> \<not> stencilTest pixelID \<and> Z
            \<and> fst D = Exit_DepthTest \<and> snd D = s)
       \<or> (\<not> R \<and> \<not> A \<and> \<not> C \<and> \<not> stencilTest pixelID \<and> \<not> Z
            \<and> fst D = Exit_Written)"
proof -
  note defs = DrawSinglePixel_def Let_def
  show ?thesis
  proof (cases R)
    case True
    have "D = (Exit_DepthRange, s)"
      unfolding D_def by (simp add: defs True [unfolded R_def] split del: if_split)
    with True show ?thesis by simp
  next
    case nR: False
    note r = nR [unfolded R_def]
    show ?thesis
    proof (cases A)
      case True
      have "D = (Exit_AlphaTest, s)"
        unfolding D_def by (simp add: defs r True [unfolded A_def] split del: if_split)
      with nR True show ?thesis by simp
    next
      case nA: False
      note a = nA [unfolded A_def]
      show ?thesis
      proof (cases C)
        case True
        have "D = (Exit_ColorTest, s)"
          unfolding D_def by (simp add: defs r a True [unfolded C_def] split del: if_split)
        with nR nA True show ?thesis by simp
      next
        case nC: False
        note c = nC [unfolded C_def]
        show ?thesis
        proof (cases "stencilTest pixelID")
          case st: True
          show ?thesis
          proof (cases "StencilTestPassed pixelID old")
            case nS: False
            have "D = (Exit_StencilFail,
                    SetPixelStencil fmt (framebufStride (cached pixelID)) twm x y
                      (ApplyStencilOp fmt rep (SFail pixelID) old) s)"
              unfolding D_def rep_def twm_def
              by (simp add: defs r a c st nS [unfolded old_def] old_def split del: if_split)
            with nR nA nC st nS show ?thesis by simp
          next
            case S: True
            show ?thesis
            proof (cases Z)
              case True
              have "D = (Exit_ZFail,
                      SetPixelStencil fmt (framebufStride (cached pixelID)) twm x y
                        (ApplyStencilOp fmt rep (ZFail pixelID) old) s)"
                unfolding D_def rep_def twm_def
                by (simp add: defs r a c st S [unfolded old_def] True [unfolded Z_def] old_def
                    split del: if_split)
              with nR nA nC st S True show ?thesis by simp
            next
              case nZ: False
              have "fst D = Exit_Written"
                unfolding D_def
                by (simp add: defs r a c st S [unfolded old_def] nZ [unfolded Z_def]
                    split del: if_split)
              with nR nA nC st S nZ show ?thesis by simp
            qed
          qed
        next
          case nst: False
          show ?thesis
          proof (cases Z)
            case True
            have "D = (Exit_DepthTest, s)"
              unfolding D_def
              by (simp add: defs r a c nst True [unfolded Z_def] split del: if_split)
            with nR nA nC nst True show ?thesis by simp
          next
            case nZ: False
            have "fst D = Exit_Written"
              unfolding D_def
              by (simp add: defs r a c nst nZ [unfolded Z_def] split del: if_split)
            with nR nA nC nst nZ show ?thesis by simp
          qed
        qed
      qed
    qed
  qed
qed

lemma DrawSinglePixel_clear_no_stencil_fail:
  "fst (DrawSinglePixel E True fmt x y z fog c pixelID s) \<noteq> Exit_StencilFail"
  using DrawSinglePixel_clear_paths
    [where E = E and fmt = fmt and x = x and y = y and z = z and fog = fog and c = c and pixelID = pixelID and s = s] by auto

lemma DrawSinglePixel_draw_stencil_fail:
  fixes E :: extern and fmt :: GEBufferFormat and x y z fog :: int
    and c :: Vec4 and pixelID :: PixelFuncID and s :: buffers
  defines "D \<equiv> DrawSinglePixel E False fmt x y z fog c pixelID s"
    and "R \<equiv> applyDepthRange pixelID \<and> (z < minz (cached pixelID) \<or> z > maxz (cached pixelID))"
    and "A \<equiv> AlphaTestFunc pixelID \<noteq> GE_COMP_ALWAYS
               \<and> \<not> AlphaTestPassed pixelID (a4 (Vec4_Clamp c 0 255))"
    and "C \<equiv> colorTest pixelID
               \<and> \<not> ColorTestPassed pixelID (rgb (testedColor False pixelID fog c))"
    and "old \<equiv> GetPixelStencil E fmt (framebufStride (cached pixelID)) x y s"
    and "rep \<equiv> (if hasStencilTestMask pixelID then stencilRef (cached pixelID)
                   else stencilTestRef pixelID)"
    and "twm \<equiv> (if applyColorWriteMask pixelID then colorWriteMask (cached pixelID) else 0)"
  shows "(fst D = Exit_StencilFail \<longleftrightarrow>
            \<not> R \<and> \<not> A \<and> \<not> C \<and> stencilTest pixelID \<and> \<not> StencilTestPassed pixelID old)
       \<and> (fst D = Exit_StencilFail \<longrightarrow>
            snd D = SetPixelStencil fmt (framebufStride (cached pixelID)) twm x y
                      (ApplyStencilOp fmt rep (SFail pixelID) old) s)"
  using DrawSinglePixel_draw_paths
    [where E = E and fmt = fmt and x = x and y = y and z = z and fog = fog and c = c and pixelID = pixelID and s = s,
      folded D_def R_def A_def C_def old_def rep_def twm_def]
  by auto


text \<open>
  C2, as the code has it. The pipeline returns at the depth-range test (line 405)
  exactly when \<^verbatim>\<open>applyDepthRange\<close> is set and \<^verbatim>\<open>z\<close> is below \<^verbatim>\<open>minz\<close> or above \<^verbatim>\<open>maxz\<close>, in
  clear mode as in any other, and then no buffer has changed. (The comment at line 402:
  "applied in clear mode, if not through mode".)
\<close>

theorem DrawSinglePixel_depth_range:
  "(fst (DrawSinglePixel E cm fmt x y z fog c pixelID s) = Exit_DepthRange \<longleftrightarrow>
      applyDepthRange pixelID \<and> (z < minz (cached pixelID) \<or> z > maxz (cached pixelID)))
 \<and> (applyDepthRange pixelID \<and> (z < minz (cached pixelID) \<or> z > maxz (cached pixelID)) \<longrightarrow>
      DrawSinglePixel E cm fmt x y z fog c pixelID s = (Exit_DepthRange, s))"
  by (simp add: DrawSinglePixel_def Let_def)

theorem DrawSinglePixel_depth_range_witness:
  "applyDepthRange (id_draw\<lparr>applyDepthRange := True\<rparr>)
 \<and> 100 > maxz (cached (id_draw\<lparr>applyDepthRange := True\<rparr>))
 \<and> DrawSinglePixel extern_id False GE_FORMAT_8888 2 1 100 255 (Vec4 10 20 30 255)
      (id_draw\<lparr>applyDepthRange := True\<rparr>) buffers_ex = (Exit_DepthRange, buffers_ex)
 \<and> fst (DrawSinglePixel extern_id False GE_FORMAT_8888 2 1 100 255 (Vec4 10 20 30 255)
      id_draw buffers_ex) = Exit_Written"
  using DrawSinglePixel_depth_range [of extern_id False GE_FORMAT_8888 2 1 100 255
      "Vec4 10 20 30 255" "id_draw\<lparr>applyDepthRange := True\<rparr>" buffers_ex]
  by (simp add: pixel_eval)

text \<open>
  The claim C2 as stated fails in clear mode: with the depth range \<^verbatim>\<open>[0, 100]\<close> applied
  and \<^verbatim>\<open>z = 200\<close>, the clear returns at the depth-range test and writes nothing, where
  the same clear without \<^verbatim>\<open>applyDepthRange\<close> writes depth 200 and the colour.
\<close>

theorem DrawSinglePixel_depth_range_counterexample:
  "clearMode id_clear_range
 \<and> applyDepthRange id_clear_range
 \<and> maxz (cached id_clear_range) = 100
 \<and> DrawSinglePixel extern_id True GE_FORMAT_8888 2 1 200 0 (Vec4 10 20 30 255)
      id_clear_range buffers_ex = (Exit_DepthRange, buffers_ex)
 \<and> \<not> (fst (DrawSinglePixel extern_id True GE_FORMAT_8888 2 1 200 0 (Vec4 10 20 30 255)
            id_clear_range buffers_ex) = Exit_DepthRange
       \<longleftrightarrow> applyDepthRange id_clear_range \<and> \<not> clearMode id_clear_range
           \<and> (200 < minz (cached id_clear_range) \<or> 200 > maxz (cached id_clear_range)))
 \<and> depthbuf (snd (DrawSinglePixel extern_id True GE_FORMAT_8888 2 1 200 0 (Vec4 10 20 30 255)
      (id_clear_range\<lparr>applyDepthRange := False\<rparr>) buffers_ex)) 6 = 200
 \<and> fb32 (snd (DrawSinglePixel extern_id True GE_FORMAT_8888 2 1 200 0 (Vec4 10 20 30 255)
      (id_clear_range\<lparr>applyDepthRange := False\<rparr>) buffers_ex)) 6 = 0xFF1E140A"
  by (simp add: pixel_eval)

text \<open>
  C3, as the code has it. The pipeline returns at the colour test (line 422) exactly
  when it is not in clear mode, \<^verbatim>\<open>colorTest\<close> is set, the depth-range and alpha tests did
  not reject, and \<^verbatim>\<open>ColorTestPassed\<close> is false of the red, green and blue of the clamped
  and fogged colour; no buffer has changed then. \<^verbatim>\<open>ColorTestPassed\<close> compares the masked
  RGB with the reference under \<^verbatim>\<open>EQUAL\<close> (true when they are equal) and \<^verbatim>\<open>NOTEQUAL\<close> (true
  when they differ) only; under \<^verbatim>\<open>NEVER\<close> it is always false, so the pixel is rejected;
  under \<^verbatim>\<open>ALWAYS\<close>, \<^verbatim>\<open>LESS\<close>, \<^verbatim>\<open>LEQUAL\<close>, \<^verbatim>\<open>GREATER\<close> and \<^verbatim>\<open>GEQUAL\<close> it is always true.
\<close>

theorem DrawSinglePixel_color_test:
  "(ColorTestPassed pixelID color \<longleftrightarrow>
      (case colorTestFunc (cached pixelID) of
         GE_COMP_NEVER \<Rightarrow> False
       | GE_COMP_EQUAL \<Rightarrow>
           Vec3_ToRGB color AND colorTestMask (cached pixelID) = colorTestRef (cached pixelID)
       | GE_COMP_NOTEQUAL \<Rightarrow>
           Vec3_ToRGB color AND colorTestMask (cached pixelID) \<noteq> colorTestRef (cached pixelID)
       | _ \<Rightarrow> True))
 \<and> (fst (DrawSinglePixel E cm fmt x y z fog c pixelID s) = Exit_ColorTest \<longleftrightarrow>
      \<not> cm \<and> colorTest pixelID
      \<and> \<not> (applyDepthRange pixelID \<and> (z < minz (cached pixelID) \<or> z > maxz (cached pixelID)))
      \<and> \<not> (AlphaTestFunc pixelID \<noteq> GE_COMP_ALWAYS
            \<and> \<not> AlphaTestPassed pixelID (a4 (Vec4_Clamp c 0 255)))
      \<and> \<not> ColorTestPassed pixelID (rgb (testedColor cm pixelID fog c)))
 \<and> (fst (DrawSinglePixel E cm fmt x y z fog c pixelID s) = Exit_ColorTest \<longrightarrow>
      snd (DrawSinglePixel E cm fmt x y z fog c pixelID s) = s)"
proof (intro conjI)
  show "ColorTestPassed pixelID color \<longleftrightarrow>
      (case colorTestFunc (cached pixelID) of
         GE_COMP_NEVER \<Rightarrow> False
       | GE_COMP_EQUAL \<Rightarrow>
           Vec3_ToRGB color AND colorTestMask (cached pixelID) = colorTestRef (cached pixelID)
       | GE_COMP_NOTEQUAL \<Rightarrow>
           Vec3_ToRGB color AND colorTestMask (cached pixelID) \<noteq> colorTestRef (cached pixelID)
       | _ \<Rightarrow> True)"
    by (rule ColorTestPassed_iff)
qed (simp_all add: DrawSinglePixel_def Let_def)

theorem DrawSinglePixel_color_test_witness:
  "colorTestFunc (cached id_color_equal) = GE_COMP_EQUAL
 \<and> Vec3_ToRGB (Vec3 10 20 30) = colorTestRef (cached id_color_equal)
 \<and> DrawSinglePixel extern_id False GE_FORMAT_8888 2 1 100 255 (Vec4 10 20 31 255)
      id_color_equal buffers_ex = (Exit_ColorTest, buffers_ex)
 \<and> fst (DrawSinglePixel extern_id False GE_FORMAT_8888 2 1 100 255 (Vec4 10 20 30 7)
      id_color_equal buffers_ex) = Exit_Written"
  using DrawSinglePixel_color_test [of id_color_equal "Vec3 10 20 30" extern_id False
      GE_FORMAT_8888 2 1 100 255 "Vec4 10 20 31 255" buffers_ex]
  by (simp add: pixel_eval)

text \<open>
  The claim C3 as stated fails for \<^verbatim>\<open>NEVER\<close>: with the colour test on and the compare
  operation \<^verbatim>\<open>GE_COMP_NEVER\<close>, \<^verbatim>\<open>ColorTestPassed\<close> is false and the pixel is rejected at
  the colour test.
\<close>

theorem DrawSinglePixel_color_test_counterexample:
  "colorTest id_color_never
 \<and> colorTestFunc (cached id_color_never) = GE_COMP_NEVER
 \<and> \<not> ColorTestPassed id_color_never (Vec3 10 20 30)
 \<and> DrawSinglePixel extern_id False GE_FORMAT_8888 2 1 100 255 (Vec4 10 20 30 255)
      id_color_never buffers_ex = (Exit_ColorTest, buffers_ex)"
  by (simp add: pixel_eval)

text \<open>
  C5. The pipeline returns at the stencil-fail return (line 435) exactly when it is
  not in clear mode, no earlier test rejected, \<^verbatim>\<open>stencilTest\<close> is set and
  \<^verbatim>\<open>StencilTestPassed\<close> is false of the stencil of the pixel. The buffers it leaves are
  those of \<^verbatim>\<open>SetPixelStencil\<close> with the stencil that \<^verbatim>\<open>ApplyStencilOp\<close> makes of the old
  one under the stencil-fail operation \<^verbatim>\<open>SFail()\<close>. The depth buffer is as it was. In
  the framebuffer, read at the width of the format, every other pixel is as it was, and
  in the pixel itself every bit outside the stencil bits is as it was: the low 24 bits
  in format 8888, the low 12 in 4444, the low 15 in 5551, all 16 in 565. Where the write
  mask leaves the stencil bits free, they are the new stencil: the high byte in 8888,
  the high nibble (of pixel and stencil) in 4444, the top bit in 5551.
\<close>

theorem DrawSinglePixel_stencil_fail:
  fixes E :: extern and cm :: bool and fmt :: GEBufferFormat and x y z fog :: int
    and c :: Vec4 and pixelID :: PixelFuncID and s :: buffers
  defines "D \<equiv> DrawSinglePixel E cm fmt x y z fog c pixelID s"
    and "i \<equiv> x + y * framebufStride (cached pixelID)"
    and "twm \<equiv> (if applyColorWriteMask pixelID then colorWriteMask (cached pixelID) else 0)"
    and "new \<equiv>
      ApplyStencilOp fmt
        (if hasStencilTestMask pixelID then stencilRef (cached pixelID)
         else stencilTestRef pixelID)
        (SFail pixelID)
        (GetPixelStencil E fmt (framebufStride (cached pixelID)) x y s)"
  shows
   "(fst D = Exit_StencilFail \<longleftrightarrow>
       \<not> cm
     \<and> \<not> (applyDepthRange pixelID \<and> (z < minz (cached pixelID) \<or> z > maxz (cached pixelID)))
     \<and> \<not> (AlphaTestFunc pixelID \<noteq> GE_COMP_ALWAYS
           \<and> \<not> AlphaTestPassed pixelID (a4 (Vec4_Clamp c 0 255)))
     \<and> \<not> (colorTest pixelID \<and> \<not> ColorTestPassed pixelID (rgb (testedColor cm pixelID fog c)))
     \<and> stencilTest pixelID
     \<and> \<not> StencilTestPassed pixelID
           (GetPixelStencil E fmt (framebufStride (cached pixelID)) x y s))
  \<and> (fst D = Exit_StencilFail \<longrightarrow>
        snd D = SetPixelStencil fmt (framebufStride (cached pixelID)) twm x y new s
      \<and> depthbuf (snd D) = depthbuf s
      \<and> (if fmt = GE_FORMAT_565 \<or> fmt = GE_FORMAT_5551 \<or> fmt = GE_FORMAT_4444
         then (\<forall>j. j \<noteq> i \<longrightarrow> fb16 (snd D) j = fb16 s j)
            \<and> fb16 (snd D) i
                 AND (case fmt of GE_FORMAT_5551 \<Rightarrow> 0x7FFF | GE_FORMAT_4444 \<Rightarrow> 0x0FFF
                      | _ \<Rightarrow> 0xFFFF)
               = fb16 s i
                 AND (case fmt of GE_FORMAT_5551 \<Rightarrow> 0x7FFF | GE_FORMAT_4444 \<Rightarrow> 0x0FFF
                      | _ \<Rightarrow> 0xFFFF)
         else (\<forall>j. j \<noteq> i \<longrightarrow> fb32 (snd D) j = fb32 s j)
            \<and> fb32 (snd D) i AND 0x00FFFFFF = fb32 s i AND 0x00FFFFFF)
      \<and> (fmt = GE_FORMAT_8888 \<and> twm AND 0xFF000000 = 0 \<longrightarrow>
            ucast (drop_bit 24 (fb32 (snd D) i)) = new)
      \<and> (fmt = GE_FORMAT_4444 \<and> twm AND 0xF000 = 0 \<longrightarrow>
            drop_bit 12 (fb16 (snd D) i) = ucast (drop_bit 4 new))
      \<and> (fmt = GE_FORMAT_5551 \<and> twm AND 0x8000 = 0 \<longrightarrow>
            (bit (fb16 (snd D) i) 15 \<longleftrightarrow> bit new 7)))"
proof -
  have both: "(fst D = Exit_StencilFail \<longleftrightarrow>
       \<not> cm
     \<and> \<not> (applyDepthRange pixelID \<and> (z < minz (cached pixelID) \<or> z > maxz (cached pixelID)))
     \<and> \<not> (AlphaTestFunc pixelID \<noteq> GE_COMP_ALWAYS
           \<and> \<not> AlphaTestPassed pixelID (a4 (Vec4_Clamp c 0 255)))
     \<and> \<not> (colorTest pixelID \<and> \<not> ColorTestPassed pixelID (rgb (testedColor cm pixelID fog c)))
     \<and> stencilTest pixelID
     \<and> \<not> StencilTestPassed pixelID
           (GetPixelStencil E fmt (framebufStride (cached pixelID)) x y s))
   \<and> (fst D = Exit_StencilFail \<longrightarrow>
        snd D = SetPixelStencil fmt (framebufStride (cached pixelID)) twm x y new s)"
  proof (cases cm)
    case True
    then show ?thesis
      unfolding D_def
      using DrawSinglePixel_clear_no_stencil_fail [of E fmt x y z fog c pixelID s] by simp
  next
    case False
    then show ?thesis
      unfolding D_def twm_def new_def
      using DrawSinglePixel_draw_stencil_fail
        [where E = E and fmt = fmt and x = x and y = y and z = z and fog = fog and c = c
           and pixelID = pixelID and s = s]
      by simp
  qed
  show ?thesis
  proof (intro conjI impI)
    show "fst D = Exit_StencilFail \<longleftrightarrow>
       \<not> cm
     \<and> \<not> (applyDepthRange pixelID \<and> (z < minz (cached pixelID) \<or> z > maxz (cached pixelID)))
     \<and> \<not> (AlphaTestFunc pixelID \<noteq> GE_COMP_ALWAYS
           \<and> \<not> AlphaTestPassed pixelID (a4 (Vec4_Clamp c 0 255)))
     \<and> \<not> (colorTest pixelID \<and> \<not> ColorTestPassed pixelID (rgb (testedColor cm pixelID fog c)))
     \<and> stencilTest pixelID
     \<and> \<not> StencilTestPassed pixelID
           (GetPixelStencil E fmt (framebufStride (cached pixelID)) x y s)"
      by (rule both [THEN conjunct1])
  next
    assume f: "fst D = Exit_StencilFail"
    from both f
    have st: "snd D = SetPixelStencil fmt (framebufStride (cached pixelID)) twm x y new s"
      by simp
    show "snd D = SetPixelStencil fmt (framebufStride (cached pixelID)) twm x y new s"
      by (rule st)
    show "depthbuf (snd D) = depthbuf s"
      unfolding st by (rule SetPixelStencil_depthbuf)
    show "if fmt = GE_FORMAT_565 \<or> fmt = GE_FORMAT_5551 \<or> fmt = GE_FORMAT_4444
         then (\<forall>j. j \<noteq> i \<longrightarrow> fb16 (snd D) j = fb16 s j)
            \<and> fb16 (snd D) i
                 AND (case fmt of GE_FORMAT_5551 \<Rightarrow> 0x7FFF | GE_FORMAT_4444 \<Rightarrow> 0x0FFF
                      | _ \<Rightarrow> 0xFFFF)
               = fb16 s i
                 AND (case fmt of GE_FORMAT_5551 \<Rightarrow> 0x7FFF | GE_FORMAT_4444 \<Rightarrow> 0x0FFF
                      | _ \<Rightarrow> 0xFFFF)
         else (\<forall>j. j \<noteq> i \<longrightarrow> fb32 (snd D) j = fb32 s j)
            \<and> fb32 (snd D) i AND 0x00FFFFFF = fb32 s i AND 0x00FFFFFF"
      unfolding st i_def
      using SetPixelStencil_color16 [of fmt "framebufStride (cached pixelID)" twm x y new s]
        SetPixelStencil_color32 [of fmt "framebufStride (cached pixelID)" twm x y new s]
      by (simp add: SetPixelStencil_other del: One_nat_def)
  next
    assume f: "fst D = Exit_StencilFail" and m: "fmt = GE_FORMAT_8888 \<and> twm AND 0xFF000000 = 0"
    from both f
    have st: "snd D = SetPixelStencil fmt (framebufStride (cached pixelID)) twm x y new s"
      by simp
    from m show "ucast (drop_bit 24 (fb32 (snd D) i)) = new"
      unfolding st i_def by (simp only: SetPixelStencil_8888_unmasked)
  next
    assume f: "fst D = Exit_StencilFail" and m: "fmt = GE_FORMAT_4444 \<and> twm AND 0xF000 = 0"
    from both f
    have st: "snd D = SetPixelStencil fmt (framebufStride (cached pixelID)) twm x y new s"
      by simp
    from m show "drop_bit 12 (fb16 (snd D) i) = ucast (drop_bit 4 new)"
      unfolding st i_def by (simp only: SetPixelStencil_4444_unmasked)
  next
    assume f: "fst D = Exit_StencilFail" and m: "fmt = GE_FORMAT_5551 \<and> twm AND 0x8000 = 0"
    from both f
    have st: "snd D = SetPixelStencil fmt (framebufStride (cached pixelID)) twm x y new s"
      by simp
    from m show "bit (fb16 (snd D) i) 15 \<longleftrightarrow> bit new 7"
      unfolding st i_def by (simp only: SetPixelStencil_5551_unmasked)
  qed
qed

text \<open>
  The instance of C5: format 8888, compare "equal", reference 5, stencil 3 in the pixel,
  stencil-fail operation \<^verbatim>\<open>REPLACE\<close>. The pixel is rejected, its depth stays 77 although
  depth write is on, its red, green and blue bytes stay, and its high byte becomes 5.
\<close>

theorem DrawSinglePixel_stencil_fail_witness:
  "GetPixelStencil extern_id GE_FORMAT_8888 4 2 1 buffers_ex = 3
 \<and> \<not> StencilTestPassed id_stencil_equal 3
 \<and> fst (DrawSinglePixel extern_id False GE_FORMAT_8888 2 1 100 255 (Vec4 10 20 30 255)
      id_stencil_equal buffers_ex) = Exit_StencilFail
 \<and> depthbuf (snd (DrawSinglePixel extern_id False GE_FORMAT_8888 2 1 100 255
      (Vec4 10 20 30 255) id_stencil_equal buffers_ex)) = depthbuf buffers_ex
 \<and> depthbuf buffers_ex 6 = 77
 \<and> fb32 buffers_ex 6 = 0x03112233
 \<and> fb32 (snd (DrawSinglePixel extern_id False GE_FORMAT_8888 2 1 100 255
      (Vec4 10 20 30 255) id_stencil_equal buffers_ex)) 6 = 0x05112233
 \<and> fb32 (snd (DrawSinglePixel extern_id False GE_FORMAT_8888 2 1 100 255
      (Vec4 10 20 30 255) id_stencil_equal buffers_ex)) 6 AND 0x00FFFFFF = 0x112233
 \<and> ucast (drop_bit 24 (fb32 (snd (DrawSinglePixel extern_id False GE_FORMAT_8888 2 1 100 255
      (Vec4 10 20 30 255) id_stencil_equal buffers_ex)) 6)) = (5 :: u8)"
  using DrawSinglePixel_stencil_fail [of extern_id False GE_FORMAT_8888 2 1 100 255
      "Vec4 10 20 30 255" id_stencil_equal buffers_ex]
  by (simp add: pixel_eval)

subsection \<open>Compiled routines against the generic pipeline\<close>

lemma GenericSingle_Some:
  "GenericSingle k = Some g \<Longrightarrow> g = DrawSinglePixel_ptr (clearMode k) (fbFormat k)"
  by (cases "fbFormat k"; cases "clearMode k") (auto simp: GenericSingle_def)

lemma id_A_draw: "id_A \<noteq> id_draw" "id_draw \<noteq> id_A"
  by (simp_all add: id_A_def id_draw_def PixelFuncID_zero_def)

lemma id_draw_instance: "clearMode id_draw = False" "fbFormat id_draw = GE_FORMAT_8888"
  by (simp_all add: id_draw_def PixelFuncID_zero_def)

text \<open>
  C1. In every state of the cache that calls of \<^verbatim>\<open>GetSingle\<close> reach from a new cache,
  with any keys, under any flags and across any number of clears, and for a generator
  as the spec has it: when \<^verbatim>\<open>GetSingle\<close> returns a routine for a key, the pointer addresses
  a routine in the code block that was emitted for that very key. Called with the key
  and any \<^verbatim>\<open>x\<close>, \<^verbatim>\<open>y\<close>, \<^verbatim>\<open>z\<close>, fog and colour, on any framebuffer and depth buffer, it leaves
  the buffers that \<^verbatim>\<open>DrawSinglePixel\<close>, instantiated at the key's clear-mode flag and
  format, leaves for the key, which are the buffers that the routine \<^verbatim>\<open>GenericSingle\<close>
  selects for the key leaves. That an emitted routine does what the generic pipeline
  does for its configuration is the spec's word for the generator, whose code is not
  among the sources; what is proved of \<^verbatim>\<open>DrawPixel.cpp\<close> is that the cache never hands out
  a routine of another configuration, or an address where no routine is.
\<close>

theorem GetSingle_routine_equivalent:
  assumes gen: "CompileSingle_spec CS"
    and reach: "J = GetSingle_calls_any CS cs (PixelJitCache_new addr)"
    and call: "GetSingle P CS k J = (Some f, J')"
  shows "invoke E (block J') f x y z fog c k s
           = Some (snd (DrawSinglePixel E (clearMode k) (fbFormat k) x y z fog c k s))
       \<and> (\<forall>g. GenericSingle k = Some g \<longrightarrow>
             invoke E (block J') f x y z fog c k s = invoke E (block J') g x y z fog c k s)"
proof -
  have "cache_sound J"
    unfolding reach by (rule cache_sound_calls [OF gen cache_sound_new])
  then have inv: "cache_sound J'"
    using cache_sound_GetSingle [OF gen, of J P k] call by simp
  have "cache_map J' k = Some (Some f)"
    using GetSingle_routine_cached [of P CS k J] call by simp
  with inv obtain a where a: "f = Compiled a" "emitted (block J') a = Some k"
    by (auto simp: cache_sound_def)
  have one: "invoke E (block J') f x y z fog c k s
           = Some (snd (DrawSinglePixel E (clearMode k) (fbFormat k) x y z fog c k s))"
    by (simp add: invoke_def a)
  have two: "invoke E (block J') g x y z fog c k s
           = Some (snd (DrawSinglePixel E (clearMode k) (fbFormat k) x y z fog c k s))"
    if "GenericSingle k = Some g" for g
    using GenericSingle_Some [OF that] by (simp add: invoke_def)
  from one two show ?thesis by simp
qed

theorem GetSingle_routine_equivalent_witness:
  "CompileSingle_spec CompileSingle_512
 \<and> GetSingle platform_jit CompileSingle_512 id_draw
      (GetSingle_calls_any CompileSingle_512 [(platform_jit, id_A)] (PixelJitCache_new 65536))
    = (Some (Compiled 66048),
       snd (GetSingle platform_jit CompileSingle_512 id_draw
         (GetSingle_calls_any CompileSingle_512 [(platform_jit, id_A)] (PixelJitCache_new 65536))))
 \<and> invoke extern_id
      (block (snd (GetSingle platform_jit CompileSingle_512 id_draw
         (GetSingle_calls_any CompileSingle_512 [(platform_jit, id_A)] (PixelJitCache_new 65536)))))
      (Compiled 66048) 2 1 100 255 (Vec4 10 20 30 255) id_draw buffers_ex
    = Some (snd (DrawSinglePixel extern_id False GE_FORMAT_8888 2 1 100 255 (Vec4 10 20 30 255)
                   id_draw buffers_ex))
 \<and> GenericSingle id_draw = Some (DrawSinglePixel_ptr False GE_FORMAT_8888)
 \<and> fb32 (snd (DrawSinglePixel extern_id False GE_FORMAT_8888 2 1 100 255 (Vec4 10 20 30 255)
              id_draw buffers_ex)) 6 = 0x031E140A
 \<and> depthbuf (snd (DrawSinglePixel extern_id False GE_FORMAT_8888 2 1 100 255 (Vec4 10 20 30 255)
              id_draw buffers_ex)) 6 = 100"
proof -
  have drawn:
    "fb32 (snd (DrawSinglePixel extern_id False GE_FORMAT_8888 2 1 100 255 (Vec4 10 20 30 255)
              id_draw buffers_ex)) 6 = 0x031E140A
   \<and> depthbuf (snd (DrawSinglePixel extern_id False GE_FORMAT_8888 2 1 100 255 (Vec4 10 20 30 255)
              id_draw buffers_ex)) 6 = 100"
    by (simp add: pixel_eval)
  have routine:
    "CompileSingle_spec CompileSingle_512
   \<and> GetSingle platform_jit CompileSingle_512 id_draw
        (GetSingle_calls_any CompileSingle_512 [(platform_jit, id_A)] (PixelJitCache_new 65536))
      = (Some (Compiled 66048),
         snd (GetSingle platform_jit CompileSingle_512 id_draw
           (GetSingle_calls_any CompileSingle_512 [(platform_jit, id_A)] (PixelJitCache_new 65536))))
   \<and> invoke extern_id
        (block (snd (GetSingle platform_jit CompileSingle_512 id_draw
           (GetSingle_calls_any CompileSingle_512 [(platform_jit, id_A)] (PixelJitCache_new 65536)))))
        (Compiled 66048) 2 1 100 255 (Vec4 10 20 30 255) id_draw buffers_ex
      = Some (snd (DrawSinglePixel extern_id False GE_FORMAT_8888 2 1 100 255 (Vec4 10 20 30 255)
                     id_draw buffers_ex))
   \<and> GenericSingle id_draw = Some (DrawSinglePixel_ptr False GE_FORMAT_8888)"
    using GetSingle_routine_equivalent [of CompileSingle_512
        "GetSingle_calls_any CompileSingle_512 [(platform_jit, id_A)] (PixelJitCache_new 65536)"
        "[(platform_jit, id_A)]" 65536 platform_jit id_draw "Compiled 66048"
        "snd (GetSingle platform_jit CompileSingle_512 id_draw
           (GetSingle_calls_any CompileSingle_512 [(platform_jit, id_A)] (PixelJitCache_new 65536)))"
        extern_id 2 1 100 255 "Vec4 10 20 30 255" buffers_ex]
      CompileSingle_512_spec
    by (simp add: jit_eval id_A_draw GenericSingle_def id_draw_instance)
  from routine drawn show ?thesis by (elim conjE) (intro conjI; assumption)
qed

end
